theory Spec2Isabelle
  imports Complex_Main "HOL-Library.Sublist" "HOL-Library.Word"
begin

section \<open>Python values shared by the four modules\<close>

text \<open>
  The agent passes around what \<^verbatim>\<open>json\<close> can encode and decode: dictionaries, lists,
  strings, numbers, booleans and \<^verbatim>\<open>None\<close>. A dictionary is an association list in
  insertion order (Python dictionaries keep it); a key is looked up with \<open>map_of\<close>.
  A Python \<^verbatim>\<open>float\<close> is a double. The quotient of two integers is modelled by the
  exact value of the double that Python computes (\<open>truediv_gib\<close> below, with its
  \<^verbatim>\<open>OverflowError\<close>); \<open>JFloat (k / 100)\<close>, the result of rounding to two
  decimals, stands for the double nearest to \<open>k / 100\<close>, the one Python prints
  with these two decimals.
\<close>

datatype json =
    JNull
  | JBool bool
  | JInt int
  | JFloat rat
  | JStr string
  | JArr "json list"
  | JObj "(string \<times> json) list"

text \<open>
  Exceptions are values. Every constructor is a subclass of \<^verbatim>\<open>Exception\<close>, so both
  \<^verbatim>\<open>except Exception\<close> and a bare \<^verbatim>\<open>except:\<close> catch all of them; interrupts delivered
  from outside the program (\<^verbatim>\<open>KeyboardInterrupt\<close>) are not modelled. The string is what
  \<^verbatim>\<open>str(e)\<close> returns. \<open>ConnectTimeout\<close> inherits from both \<^verbatim>\<open>ConnectionError\<close> and
  \<^verbatim>\<open>Timeout\<close> in the requests library, \<open>ReadTimeout\<close> from \<^verbatim>\<open>Timeout\<close> only.
\<close>

datatype exn =
    OSError string
  | ImportError string
  | KeyError string
  | TypeError string
  | ValueError string
  | AttributeError string
  | ConnectTimeout string
  | ReadTimeout string
  | ConnectionError string
  | HTTPError string
  | OverflowError string
  | RuntimeError string

fun exn_str :: "exn \<Rightarrow> string" where
  "exn_str (OSError m) = m"
| "exn_str (ImportError m) = m"
| "exn_str (KeyError k) = [CHR 0x27] @ k @ [CHR 0x27]"
| "exn_str (TypeError m) = m"
| "exn_str (ValueError m) = m"
| "exn_str (AttributeError m) = m"
| "exn_str (ConnectTimeout m) = m"
| "exn_str (ReadTimeout m) = m"
| "exn_str (ConnectionError m) = m"
| "exn_str (HTTPError m) = m"
| "exn_str (OverflowError m) = m"
| "exn_str (RuntimeError m) = m"

fun is_Timeout :: "exn \<Rightarrow> bool" where
  "is_Timeout (ConnectTimeout m) = True"
| "is_Timeout (ReadTimeout m) = True"
| "is_Timeout e = False"

fun is_ConnectionError :: "exn \<Rightarrow> bool" where
  "is_ConnectionError (ConnectTimeout m) = True"
| "is_ConnectionError (ConnectionError m) = True"
| "is_ConnectionError e = False"

fun is_HTTPError :: "exn \<Rightarrow> bool" where
  "is_HTTPError (HTTPError m) = True"
| "is_HTTPError e = False"

subsection \<open>String methods\<close>

text \<open>
  \<^verbatim>\<open>s.endswith(t)\<close> is \<open>suffix t s\<close>, \<^verbatim>\<open>t in s\<close> on strings is \<open>sublist t s\<close>.
  \<^verbatim>\<open>s.rstrip('/')\<close> removes every trailing occurrence of the character.
\<close>

definition rstrip_char :: "char \<Rightarrow> string \<Rightarrow> string" where
  "rstrip_char c s = rev (dropWhile (\<lambda>x. x = c) (rev s))"

text \<open>\<^verbatim>\<open>str.isspace\<close> on the ASCII range: tab, line feed, vertical tab, form feed,
  carriage return, the four separators \<open>0x1C\<close> to \<open>0x1F\<close>, and the space.\<close>

definition is_space :: "char \<Rightarrow> bool" where
  "is_space c = (c \<in> set [CHR 0x09, CHR 0x0A, CHR 0x0B, CHR 0x0C, CHR 0x0D,
                           CHR 0x1C, CHR 0x1D, CHR 0x1E, CHR 0x1F, CHR 0x20])"

definition strip :: "string \<Rightarrow> string" where
  "strip s = rev (dropWhile is_space (rev (dropWhile is_space s)))"

text \<open>
  \<^verbatim>\<open>s.split(sep)\<close> for a non-empty separator: the text is cut at each occurrence of
  \<open>sep\<close>, found from left to right without overlap. \<open>acc\<close> holds the current piece,
  reversed.
\<close>

function split_acc :: "string \<Rightarrow> string \<Rightarrow> string \<Rightarrow> string list" where
  "split_acc sep acc [] = [rev acc]"
| "split_acc sep acc (c # cs) =
     (if sep \<noteq> [] \<and> prefix sep (c # cs)
      then rev acc # split_acc sep [] (drop (length sep) (c # cs))
      else split_acc sep (c # acc) cs)"
  by pat_completeness auto
termination
  by (relation "measure (\<lambda>(sep, acc, s). length s)") (auto simp: neq_Nil_conv)

definition split :: "string \<Rightarrow> string \<Rightarrow> string list" where
  "split s sep = split_acc sep [] s"

text \<open>Decimal digits of a natural number, as \<^verbatim>\<open>str(n)\<close> prints them.\<close>

definition digit_char :: "nat \<Rightarrow> char" where
  "digit_char d = char_of (48 + d)"

fun show_nat :: "nat \<Rightarrow> string" where
  "show_nat n = (if n < 10 then [digit_char n] else show_nat (n div 10) @ [digit_char (n mod 10)])"

section \<open>sender.py\<close>

text \<open>
  What \<^verbatim>\<open>requests.post\<close> is called with (sender.py, line 27), and what it gives back:
  an exception, or a response with its status line and what \<^verbatim>\<open>response.json()\<close>
  makes of its body (an exception when the body is not JSON).
\<close>

record request =
  req_url :: string
  req_json :: json
  req_headers :: "(string \<times> string) list"
  req_timeout :: nat

record response =
  status_code :: nat
  reason :: string
  resp_url :: string
  resp_json :: "exn + json"

text \<open>The second component of \<^verbatim>\<open>send_data\<close>'s result: the parsed body on success, a
  description on failure.\<close>

datatype send_result = Body json | Message string

definition register_path :: string where
  "register_path = ''/api/device/register''"

text \<open>sender.py, lines 18 to 19.\<close>

definition normalize_url :: "string \<Rightarrow> string" where
  "normalize_url api_url =
     (if \<not> suffix register_path api_url
      then rstrip_char CHR ''/'' api_url @ register_path
      else api_url)"

text \<open>sender.py, lines 21 to 27: the request handed to \<^verbatim>\<open>requests.post\<close>.\<close>

definition send_data_request :: "json \<Rightarrow> string \<Rightarrow> request" where
  "send_data_request report_data api_url =
     \<lparr> req_url = normalize_url api_url,
       req_json = report_data,
       req_headers = [(''Content-Type'', ''application/json''),
                      (''User-Agent'', ''LLM-Checkmate-Agent/1.0'')],
       req_timeout = 10 \<rparr>"

text \<open>
  \<^verbatim>\<open>Response.raise_for_status\<close> of the requests library: a status from 400 to 599
  raises \<^verbatim>\<open>HTTPError\<close>, whose text names the status, the reason and the URL.
\<close>

definition raise_for_status :: "response \<Rightarrow> exn option" where
  "raise_for_status r =
     (if 400 \<le> status_code r \<and> status_code r < 500
      then Some (HTTPError (show_nat (status_code r) @ '' Client Error: '' @ reason r
                            @ '' for url: '' @ resp_url r))
      else if 500 \<le> status_code r \<and> status_code r < 600
      then Some (HTTPError (show_nat (status_code r) @ '' Server Error: '' @ reason r
                            @ '' for url: '' @ resp_url r))
      else None)"

text \<open>sender.py, lines 26 to 31: the body of the \<^verbatim>\<open>try\<close>.\<close>

definition send_data_try :: "(request \<Rightarrow> exn + response) \<Rightarrow> request \<Rightarrow> exn + json" where
  "send_data_try post req =
     (case post req of
        Inl e \<Rightarrow> Inl e
      | Inr resp \<Rightarrow>
          (case raise_for_status resp of
             Some e \<Rightarrow> Inl e
           | None \<Rightarrow> resp_json resp))"

text \<open>sender.py, lines 33 to 44: the handlers, in the order they are written.\<close>

definition send_data_except :: "exn \<Rightarrow> bool \<times> send_result" where
  "send_data_except e =
     (if is_Timeout e then (False, Message ''Timeout'')
      else if is_ConnectionError e then (False, Message ''Connection Error'')
      else if is_HTTPError e then (False, Message (''HTTP Error: '' @ exn_str e))
      else (False, Message (exn_str e)))"

definition send_data :: "(request \<Rightarrow> exn + response) \<Rightarrow> json \<Rightarrow> string \<Rightarrow> bool \<times> send_result" where
  "send_data post report_data api_url =
     (case send_data_try post (send_data_request report_data api_url) of
        Inr body \<Rightarrow> (True, Body body)
      | Inl e \<Rightarrow> send_data_except e)"

section \<open>scanner.py\<close>

subsection \<open>Numbers\<close>

text \<open>
  \<^verbatim>\<open>round(x, 2)\<close>: the nearest multiple of one hundredth, a tie going to the even
  neighbour (Python rounds the exact value of the float, half to even).
\<close>

definition round_half_even :: "rat \<Rightarrow> int" where
  "round_half_even x =
     (let f = \<lfloor>x\<rfloor>; d = x - of_int f
      in if d < 1 / 2 then f
         else if 1 / 2 < d then f + 1
         else if even f then f else f + 1)"

definition py_round2 :: "rat \<Rightarrow> rat" where
  "py_round2 x = of_int (round_half_even (x * 100)) / 100"

text \<open>
  \<^verbatim>\<open>n / (1024 ** 3)\<close> on an integer \<open>n\<close>: Python returns the double nearest to
  the exact quotient, a tie going to the even neighbour, and raises
  \<^verbatim>\<open>OverflowError\<close> when that is beyond the largest double. The divisor is
  \<open>2 ^ 30\<close>, so a numerator of at most 53 bits gives the exact quotient, and a
  longer one is first rounded to a multiple of \<open>2 ^ s\<close> that keeps 53 bits.
  \<open>bit_length\<close> is \<^verbatim>\<open>int.bit_length\<close>.
\<close>

fun bit_length :: "nat \<Rightarrow> nat" where
  "bit_length n = (if n = 0 then 0 else Suc (bit_length (n div 2)))"

declare bit_length.simps [simp del]

definition truediv_gib :: "int \<Rightarrow> exn + rat" where
  "truediv_gib n =
     (let bits = bit_length (nat \<bar>n\<bar>)
      in if bits \<le> 53 then Inr (of_int n / 1024 ^ 3)
         else (let s = bits - 53;
                   m = round_half_even (of_int n / 2 ^ s);
                   q = of_int m * 2 ^ s / 1024 ^ 3
               in if \<bar>q\<bar> < 2 ^ 1024 then Inr q
                  else Inl (OverflowError ''integer division result too large for a float'')))"

text \<open>
  \<^verbatim>\<open>int(s)\<close> on ASCII text, base ten: surrounding whitespace is dropped, one sign may
  lead, and single underscores may stand between digits. \<open>None\<close> is \<^verbatim>\<open>ValueError\<close>.
\<close>

definition is_digit :: "char \<Rightarrow> bool" where
  "is_digit c = (48 \<le> (of_char c :: nat) \<and> (of_char c :: nat) \<le> 57)"

fun digits_value :: "nat \<Rightarrow> string \<Rightarrow> nat option" where
  "digits_value acc [] = Some acc"
| "digits_value acc (c # cs) =
     (if is_digit c then digits_value (10 * acc + (of_char c - 48)) cs
      else if c = CHR ''_'' \<and> cs \<noteq> [] \<and> is_digit (hd cs) then digits_value acc cs
      else None)"

definition py_int :: "string \<Rightarrow> int option" where
  "py_int s =
     (let t = strip s;
          neg = (t \<noteq> [] \<and> hd t = CHR ''-'');
          ds = (if t \<noteq> [] \<and> (hd t = CHR ''-'' \<or> hd t = CHR ''+'') then tl t else t)
      in if ds = [] \<or> \<not> is_digit (hd ds) then None
         else map_option (\<lambda>n. if neg then - int n else int n) (digits_value 0 ds))"

subsection \<open>The probes\<close>

text \<open>
  Everything the scanner asks of the machine is a field of \<open>env\<close>: a call that can
  raise is a value of \<open>exn + 'a\<close>. The functions of \<^verbatim>\<open>platform\<close> are documented to
  return a string (empty when the value cannot be determined), so they are plain
  strings. \<^verbatim>\<open>psutil.cpu_freq()\<close> is called twice on line 38 and each call has its
  own field; \<open>Some m\<close> stands for a result whose \<^verbatim>\<open>max\<close> is \<open>m\<close>, \<open>None\<close> for
  \<^verbatim>\<open>None\<close>.
\<close>

record svmem =
  vm_total :: int
  vm_available :: int
  vm_percent :: rat

record sdiskusage =
  du_total :: int
  du_free :: int
  du_percent :: rat

record gputil_gpu =
  gpu_name :: string
  memoryTotal :: rat
  memoryFree :: rat

record torch_props =
  props_name :: string
  total_memory :: int

record torch =
  cuda_is_available :: "exn + bool"
  cuda_device_count :: "exn + int"
  cuda_get_device_properties :: "nat \<Rightarrow> exn + torch_props"
  backends_has_mps :: bool
  mps_is_available :: "exn + bool"

record env =
  platform_system :: string
  platform_release :: string
  platform_version :: string
  platform_processor :: string
  platform_machine :: string
  wmic_cpu_name :: "exn + string"
  cpu_count_physical :: "exn + int option"
  cpu_count_logical :: "exn + int option"
  cpu_freq_first :: "exn + rat option"
  cpu_freq_second :: "exn + rat option"
  cpu_percent :: "exn + rat"
  virtual_memory :: "exn + svmem"
  disk_usage :: "exn + sdiskusage"
  gputil_getGPUs :: "exn + gputil_gpu list"
  import_torch :: "exn + torch"
  wmic_video :: "exn + string"

definition bind_exn :: "exn + 'a \<Rightarrow> ('a \<Rightarrow> exn + 'b) \<Rightarrow> exn + 'b" where
  "bind_exn m f = (case m of Inl e \<Rightarrow> Inl e | Inr x \<Rightarrow> f x)"

definition json_of_int_option :: "int option \<Rightarrow> json" where
  "json_of_int_option v = (case v of None \<Rightarrow> JNull | Some n \<Rightarrow> JInt n)"

text \<open>\<^verbatim>\<open>[l.strip() for l in output.split('\n') if l.strip()]\<close> (lines 26 and 119).\<close>

definition output_lines :: "string \<Rightarrow> string list" where
  "output_lines output = [strip l. l \<leftarrow> split output [CHR 0x0A], strip l \<noteq> []]"

subsection \<open>CPU, RAM and disk\<close>

text \<open>scanner.py, lines 19 to 31: the brand, refined by WMIC on Windows.\<close>

definition cpu_brand :: "env \<Rightarrow> string" where
  "cpu_brand env =
     (let brand = platform_processor env
      in if platform_system env = ''Windows''
         then (case wmic_cpu_name env of
                 Inl e \<Rightarrow> brand
               | Inr output \<Rightarrow>
                   (let lines = output_lines output
                    in if length lines > 1 then lines ! 1 else brand))
         else brand)"

text \<open>scanner.py, line 38: \<^verbatim>\<open>psutil.cpu_freq().max if psutil.cpu_freq() else 0\<close>. The
  condition is evaluated first; reading \<^verbatim>\<open>max\<close> of \<^verbatim>\<open>None\<close> raises.\<close>

definition frequency_max :: "env \<Rightarrow> exn + json" where
  "frequency_max env =
     bind_exn (cpu_freq_first env) (\<lambda>c.
       if c \<noteq> None
       then bind_exn (cpu_freq_second env) (\<lambda>v.
              case v of
                None \<Rightarrow> Inl (AttributeError [])
              | Some m \<Rightarrow> Inr (JFloat m))
       else Inr (JInt 0))"

text \<open>scanner.py, lines 19 to 41: the body of the \<^verbatim>\<open>try\<close> of \<^verbatim>\<open>get_cpu_info\<close>.\<close>

definition get_cpu_info_try :: "env \<Rightarrow> exn + json" where
  "get_cpu_info_try env =
     (let brand = cpu_brand env
      in bind_exn (cpu_count_physical env) (\<lambda>physical.
         bind_exn (cpu_count_logical env) (\<lambda>logical.
         bind_exn (frequency_max env) (\<lambda>freq.
         bind_exn (cpu_percent env) (\<lambda>usage.
           Inr (JObj [(''brand'', JStr brand),
                      (''architecture'', JStr (platform_machine env)),
                      (''physical_cores'', json_of_int_option physical),
                      (''logical_cores'', json_of_int_option logical),
                      (''frequency_max'', freq),
                      (''usage_percent'', JFloat usage)]))))))"

definition get_cpu_info :: "env \<Rightarrow> json" where
  "get_cpu_info env = (case get_cpu_info_try env of Inr info \<Rightarrow> info | Inl e \<Rightarrow> JObj [])"

text \<open>\<^verbatim>\<open>round(n / (1024 ** 3), 2)\<close>, as on lines 51, 52, 64, 65 and 101.\<close>

definition gib :: "int \<Rightarrow> exn + rat" where
  "gib n = bind_exn (truediv_gib n) (\<lambda>q. Inr (py_round2 q))"

text \<open>scanner.py, lines 49 to 54 and 62 to 67: the bodies of the two \<^verbatim>\<open>try\<close> blocks.\<close>

definition get_ram_info_try :: "env \<Rightarrow> exn + json" where
  "get_ram_info_try env =
     bind_exn (virtual_memory env) (\<lambda>mem.
     bind_exn (gib (vm_total mem)) (\<lambda>total.
     bind_exn (gib (vm_available mem)) (\<lambda>available.
       Inr (JObj [(''total_gb'', JFloat total),
                  (''available_gb'', JFloat available),
                  (''percent_used'', JFloat (vm_percent mem))]))))"

definition get_ram_info :: "env \<Rightarrow> json" where
  "get_ram_info env = (case get_ram_info_try env of Inr info \<Rightarrow> info | Inl e \<Rightarrow> JObj [])"

definition get_disk_info_try :: "env \<Rightarrow> exn + json" where
  "get_disk_info_try env =
     bind_exn (disk_usage env) (\<lambda>disk.
     bind_exn (gib (du_total disk)) (\<lambda>total.
     bind_exn (gib (du_free disk)) (\<lambda>free.
       Inr (JObj [(''total_gb'', JFloat total),
                  (''free_gb'', JFloat free),
                  (''percent_used'', JFloat (du_percent disk))]))))"

definition get_disk_info :: "env \<Rightarrow> json" where
  "get_disk_info env = (case get_disk_info_try env of Inr info \<Rightarrow> info | Inl e \<Rightarrow> JObj [])"

subsection \<open>GPU strategies\<close>

text \<open>scanner.py, lines 79 to 90. A failed import or call leaves the list empty.\<close>

definition gputil_entry :: "gputil_gpu \<Rightarrow> json" where
  "gputil_entry device =
     JObj [(''name'', JStr (gpu_name device)),
           (''vram_total_gb'', JFloat (py_round2 (memoryTotal device / 1024))),
           (''vram_free_gb'', JFloat (py_round2 (memoryFree device / 1024))),
           (''source'', JStr ''gputil'')]"

definition gputil_strategy :: "env \<Rightarrow> json list" where
  "gputil_strategy env =
     (case gputil_getGPUs env of Inl e \<Rightarrow> [] | Inr devices \<Rightarrow> map gputil_entry devices)"

text \<open>scanner.py, lines 94 to 111. The loop of lines 97 to 103 appends one entry per
  index; when \<^verbatim>\<open>get_device_properties\<close> or the division raises, the entries appended
  so far stay.\<close>

definition torch_entry :: "torch_props \<Rightarrow> exn + json" where
  "torch_entry props =
     bind_exn (gib (total_memory props)) (\<lambda>vram_total_gb.
       Inr (JObj [(''name'', JStr (props_name props)),
                  (''vram_total_gb'', JFloat vram_total_gb),
                  (''source'', JStr ''torch'')]))"

fun torch_devices :: "(nat \<Rightarrow> exn + torch_props) \<Rightarrow> nat list \<Rightarrow> json list" where
  "torch_devices get [] = []"
| "torch_devices get (i # rest) =
     (case bind_exn (get i) torch_entry of
        Inl e \<Rightarrow> []
      | Inr entry \<Rightarrow> entry # torch_devices get rest)"

definition mps_entry :: json where
  "mps_entry =
     JObj [(''name'', JStr ''Apple Unified Memory (MPS)''),
           (''vram_total_gb'', JInt 0),
           (''source'', JStr ''torch-mps'')]"

definition torch_strategy :: "env \<Rightarrow> json list" where
  "torch_strategy env =
     (case import_torch env of
        Inl e \<Rightarrow> []
      | Inr t \<Rightarrow>
          (case cuda_is_available t of
             Inl e \<Rightarrow> []
           | Inr True \<Rightarrow>
               (case cuda_device_count t of
                  Inl e \<Rightarrow> []
                | Inr n \<Rightarrow> torch_devices (cuda_get_device_properties t) [0..<nat n])
           | Inr False \<Rightarrow>
               (if backends_has_mps t
                then (case mps_is_available t of
                        Inl e \<Rightarrow> []
                      | Inr True \<Rightarrow> [mps_entry]
                      | Inr False \<Rightarrow> [])
                else [])))"

text \<open>scanner.py, lines 128 to 129, on the parsed \<^verbatim>\<open>vram_bytes\<close>. The division of
  line 128 is the only step that can raise.\<close>

definition wmic_vram_gb :: "int \<Rightarrow> exn + json" where
  "wmic_vram_gb vram_bytes =
     bind_exn (gib \<bar>vram_bytes\<bar>) (\<lambda>vram_gb.
       Inr (if vram_gb < 1 / 10 then JInt 0 else JFloat vram_gb))"

text \<open>scanner.py, lines 122 to 135, for one line of the table.\<close>

definition wmic_entry :: "string \<Rightarrow> exn + json" where
  "wmic_entry line =
     (let parts = split line ''  '';
          name = strip (last parts);
          vram_bytes = (case py_int (strip (hd parts)) of Some n \<Rightarrow> n | None \<Rightarrow> 0)
      in bind_exn (wmic_vram_gb vram_bytes) (\<lambda>vram_gb.
           Inr (JObj [(''name'', JStr name),
                      (''vram_total_gb'', vram_gb),
                      (''source'', JStr ''wmic'')])))"

text \<open>scanner.py, lines 120 to 135: the loop. An exception in it is caught on line
  136, outside the loop, so the entries appended so far stay and the remaining
  lines are not read.\<close>

fun wmic_entries :: "string list \<Rightarrow> json list" where
  "wmic_entries [] = []"
| "wmic_entries (line # rest) =
     (case wmic_entry line of
        Inl e \<Rightarrow> []
      | Inr entry \<Rightarrow> entry # wmic_entries rest)"

text \<open>scanner.py, lines 115 to 137: \<^verbatim>\<open>lines[1:]\<close> skips the header.\<close>

definition wmic_strategy :: "env \<Rightarrow> json list" where
  "wmic_strategy env =
     (case wmic_video env of
        Inl e \<Rightarrow> []
      | Inr output \<Rightarrow> wmic_entries (drop 1 (output_lines output)))"

text \<open>
  scanner.py, lines 72 to 139. Besides the list, the model returns which strategies
  were entered, in order: the first one always is, the others stand behind
  \<^verbatim>\<open>if not gpus\<close>.
\<close>

datatype strategy = GPUtil | Torch | WMIC

definition get_gpu_info :: "env \<Rightarrow> json list \<times> strategy list" where
  "get_gpu_info env =
     (let gpus = gputil_strategy env;
          calls = [GPUtil];
          (gpus, calls) = (if gpus = [] then (gpus @ torch_strategy env, calls @ [Torch])
                           else (gpus, calls));
          (gpus, calls) = (if gpus = [] \<and> platform_system env = ''Windows''
                           then (gpus @ wmic_strategy env, calls @ [WMIC])
                           else (gpus, calls))
      in (gpus, calls))"

text \<open>scanner.py, lines 141 to 157: the snapshot, and the line it prints.\<close>

definition scan_system :: "env \<Rightarrow> json \<times> string list" where
  "scan_system env =
     (JObj [(''os'', JObj [(''system'', JStr (platform_system env)),
                          (''release'', JStr (platform_release env)),
                          (''version'', JStr (platform_version env))]),
            (''cpu'', get_cpu_info env),
            (''ram'', get_ram_info env),
            (''storage'', get_disk_info env),
            (''gpu'', JArr (fst (get_gpu_info env)))],
      [''running system scan... (we only access hardware capability metrics)''])"

section \<open>device\_id.py\<close>

subsection \<open>The world the identity store lives in\<close>

text \<open>
  The store touches one directory and one file in it. A file is what
  \<^verbatim>\<open>open(DEVICE_FILE, "r")\<close> and \<^verbatim>\<open>json.load\<close> make of it: \<open>open_read_fault\<close> is the
  exception \<^verbatim>\<open>open\<close> raises, if any; \<open>Unparseable e\<close> is content on which
  \<^verbatim>\<open>json.load\<close> raises \<open>e\<close>, \<open>Parsed v\<close> is content that decodes to \<open>v\<close>.
  \<open>NoDir\<close> is a missing directory, \<open>Dir None\<close> a directory without the file.
  The faults say which of the operations that change the disk will fail.
  \<open>urandom\<close> is the sequence of 16-byte values \<^verbatim>\<open>os.urandom\<close> will hand out and
  \<open>drawn\<close> how many were taken; \<open>now\<close> is \<^verbatim>\<open>str(datetime.now())\<close>.
\<close>

datatype file_content = Unparseable exn | Parsed json

record device_file =
  open_read_fault :: "exn option"
  content :: file_content

datatype config_dir = NoDir | Dir "device_file option"

datatype write_fault = NoFault | OpenFails exn | DumpFails exn

datatype log_entry = LogWarning string exn | LogError string exn

record world =
  home :: config_dir
  makedirs_fault :: "exn option"
  write_fault :: write_fault
  urandom :: "nat \<Rightarrow> 128 word"
  drawn :: nat
  now :: string
  logged :: "log_entry list"

subsection \<open>Operators on decoded JSON\<close>

text \<open>
  \<^verbatim>\<open>key in data\<close> and \<^verbatim>\<open>data[key]\<close> for a string key, on each type \<^verbatim>\<open>json.load\<close> can
  return. The text of the interpreter's \<^verbatim>\<open>TypeError\<close> is left empty.
\<close>

fun py_contains :: "string \<Rightarrow> json \<Rightarrow> exn + bool" where
  "py_contains key (JObj kvs) = Inr (map_of kvs key \<noteq> None)"
| "py_contains key (JArr xs) = Inr (JStr key \<in> set xs)"
| "py_contains key (JStr s) = Inr (sublist key s)"
| "py_contains key v = Inl (TypeError [])"

fun py_getitem :: "json \<Rightarrow> string \<Rightarrow> exn + json" where
  "py_getitem (JObj kvs) key =
     (case map_of kvs key of Some v \<Rightarrow> Inr v | None \<Rightarrow> Inl (KeyError key))"
| "py_getitem v key = Inl (TypeError [])"

subsection \<open>UUIDs\<close>

text \<open>
  \<^verbatim>\<open>uuid.uuid4()\<close> of the standard library takes 16 random bytes and overwrites the
  variant bits (two bits, \<open>10\<close>, at position 62) and the version (four bits, \<open>4\<close>,
  at position 76); \<^verbatim>\<open>str\<close> prints the 128 bits as 32 lower-case hexadecimal digits
  in groups of 8, 4, 4, 4 and 12.
\<close>

unbundle bit_operations_syntax

definition uuid4 :: "128 word \<Rightarrow> 128 word" where
  "uuid4 r =
     (((r AND NOT (push_bit 48 0xc000)) OR push_bit 48 0x8000)
        AND NOT (push_bit 64 0xf000)) OR push_bit 76 4"

definition hex_digit :: "nat \<Rightarrow> char" where
  "hex_digit n = ''0123456789abcdef'' ! n"

definition hex32 :: "128 word \<Rightarrow> string" where
  "hex32 w = map (\<lambda>i. hex_digit (unat (drop_bit (4 * (31 - i)) w AND 15))) [0..<32]"

definition uuid_str :: "128 word \<Rightarrow> string" where
  "uuid_str w =
     (let h = hex32 w
      in take 8 h @ ''-'' @ take 4 (drop 8 h) @ ''-'' @ take 4 (drop 12 h) @ ''-''
         @ take 4 (drop 16 h) @ ''-'' @ drop 20 h)"

text \<open>The textual convention: five groups of hexadecimal digits, of 8, 4, 4, 4 and 12,
  joined by hyphens.\<close>

definition is_hex :: "string \<Rightarrow> bool" where
  "is_hex s = list_all (\<lambda>c. c \<in> set ''0123456789abcdef'') s"

definition is_uuid_text :: "string \<Rightarrow> bool" where
  "is_uuid_text s =
     (length s = 36 \<and>
      is_hex (take 8 s) \<and> s ! 8 = CHR ''-'' \<and>
      is_hex (take 4 (drop 9 s)) \<and> s ! 13 = CHR ''-'' \<and>
      is_hex (take 4 (drop 14 s)) \<and> s ! 18 = CHR ''-'' \<and>
      is_hex (take 4 (drop 19 s)) \<and> s ! 23 = CHR ''-'' \<and>
      is_hex (drop 24 s))"

subsection \<open>The store\<close>

text \<open>device\_id.py, lines 19 to 22. A failure of \<^verbatim>\<open>os.makedirs\<close> is not caught.\<close>

definition ensure_dir :: "world \<Rightarrow> exn + world" where
  "ensure_dir w =
     (case home w of
        NoDir \<Rightarrow> (case makedirs_fault w of
                    Some e \<Rightarrow> Inl e
                  | None \<Rightarrow> Inr (w\<lparr>home := Dir None\<rparr>))
      | Dir f \<Rightarrow> Inr w)"

definition device_file_of :: "world \<Rightarrow> device_file option" where
  "device_file_of w = (case home w of NoDir \<Rightarrow> None | Dir f \<Rightarrow> f)"

text \<open>device\_id.py, lines 32 to 35, the body of the \<^verbatim>\<open>try\<close>: \<open>Inr (Some v)\<close> is
  \<^verbatim>\<open>return v\<close>, \<open>Inr None\<close> leaves the block without returning.\<close>

definition read_device_id :: "device_file \<Rightarrow> exn + json option" where
  "read_device_id f =
     (case open_read_fault f of
        Some e \<Rightarrow> Inl e
      | None \<Rightarrow>
          (case content f of
             Unparseable e \<Rightarrow> Inl e
           | Parsed data \<Rightarrow>
               bind_exn (py_contains ''device_id'' data) (\<lambda>present.
                 if present
                 then bind_exn (py_getitem data ''device_id'') (\<lambda>v. Inr (Some v))
                 else Inr None)))"

text \<open>
  device\_id.py, lines 40 to 48. Opening for writing keeps the permissions of a
  file that exists; a write that fails after the file was opened leaves it
  truncated, which no longer decodes. Without the directory, \<^verbatim>\<open>open\<close> fails.
\<close>

definition persist :: "world \<Rightarrow> string \<Rightarrow> exn + world" where
  "persist w new_id =
     (case home w of
        NoDir \<Rightarrow> Inl (OSError [])
      | Dir old \<Rightarrow>
          (let fault = (case old of None \<Rightarrow> None | Some f \<Rightarrow> open_read_fault f)
           in case write_fault w of
                OpenFails e \<Rightarrow> Inl e
              | DumpFails e \<Rightarrow> Inl e
              | NoFault \<Rightarrow>
                  Inr (w\<lparr>home := Dir (Some \<lparr> open_read_fault = fault,
                         content = Parsed (JObj [(''device_id'', JStr new_id),
                                                 (''created_at'', JStr (now w))]) \<rparr>)\<rparr>)))"

definition after_failed_write :: "world \<Rightarrow> world" where
  "after_failed_write w =
     (case (home w, write_fault w) of
        (Dir old, DumpFails e) \<Rightarrow>
          w\<lparr>home := Dir (Some \<lparr> open_read_fault =
                                   (case old of None \<Rightarrow> None | Some f \<Rightarrow> open_read_fault f),
                                 content = Unparseable (ValueError []) \<rparr>)\<rparr>
      | _ \<Rightarrow> w)"

definition generate_id :: "world \<Rightarrow> json \<times> world" where
  "generate_id w =
     (let new_id = uuid_str (uuid4 (urandom w (drawn w)));
          w1 = w\<lparr>drawn := Suc (drawn w)\<rparr>
      in case persist w1 new_id of
           Inr w2 \<Rightarrow> (JStr new_id, w2)
         | Inl e \<Rightarrow>
             (JStr new_id,
              (after_failed_write w1)
                \<lparr>logged := logged w1 @ [LogError ''Failed to persist device ID: '' e]\<rparr>))"

text \<open>device\_id.py, lines 24 to 48.\<close>

definition get_or_create_device_id :: "world \<Rightarrow> (exn + json) \<times> world" where
  "get_or_create_device_id w =
     (case ensure_dir w of
        Inl e \<Rightarrow> (Inl e, w)
      | Inr w1 \<Rightarrow>
          (case device_file_of w1 of
             None \<Rightarrow> (case generate_id w1 of (v, w2) \<Rightarrow> (Inr v, w2))
           | Some f \<Rightarrow>
               (case read_device_id f of
                  Inr (Some v) \<Rightarrow> (Inr v, w1)
                | Inr None \<Rightarrow> (case generate_id w1 of (v, w2) \<Rightarrow> (Inr v, w2))
                | Inl e \<Rightarrow>
                    (case generate_id
                            (w1\<lparr>logged := logged w1 @
                               [LogWarning ''Corrupt device file found, regenerating ID. Error: '' e]\<rparr>)
                     of (v, w2) \<Rightarrow> (Inr v, w2)))))"

text \<open>Calling the store \<open>n\<close> times in a row, each call starting from the world the
  previous one left: the results in order, and the final world.\<close>

fun repeated_calls :: "nat \<Rightarrow> world \<Rightarrow> (exn + json) list \<times> world" where
  "repeated_calls 0 w = ([], w)"
| "repeated_calls (Suc n) w =
     (case get_or_create_device_id w of
        (r, w1) \<Rightarrow> (case repeated_calls n w1 of (rs, w2) \<Rightarrow> (r # rs, w2)))"

section \<open>cli.py\<close>

subsection \<open>Printing\<close>

text \<open>
  Standard output is the list of the strings handed to \<^verbatim>\<open>print\<close>, one per call. A
  character outside ASCII is its UTF-8 bytes. An f-string formats a value with
  \<^verbatim>\<open>str\<close>: a string is itself, and \<open>fmt\<close> stands for \<^verbatim>\<open>str\<close> on the other values
  (numbers, \<^verbatim>\<open>None\<close>, lists, dictionaries), which the model takes as a parameter.
\<close>

definition py_str :: "(json \<Rightarrow> string) \<Rightarrow> json \<Rightarrow> string" where
  "py_str fmt v = (case v of JStr s \<Rightarrow> s | _ \<Rightarrow> fmt v)"

definition newline :: string where
  "newline = [CHR 0x0A]"

definition check_mark :: string where
  "check_mark = [CHR 0xE2, CHR 0x9C, CHR 0x85]"

definition magnifier :: string where
  "magnifier = [CHR 0xF0, CHR 0x9F, CHR 0x94, CHR 0x8D]"

definition laptop :: string where
  "laptop = [CHR 0xF0, CHR 0x9F, CHR 0x92, CHR 0xBB]"

definition gear :: string where
  "gear = [CHR 0xE2, CHR 0x9A, CHR 0x99, CHR 0xEF, CHR 0xB8, CHR 0x8F]"

definition brain :: string where
  "brain = [CHR 0xF0, CHR 0x9F, CHR 0xA7, CHR 0xA0]"

definition game_pad :: string where
  "game_pad = [CHR 0xF0, CHR 0x9F, CHR 0x8E, CHR 0xAE]"

definition party :: string where
  "party = [CHR 0xF0, CHR 0x9F, CHR 0x8E, CHR 0x89]"

definition link_sign :: string where
  "link_sign = [CHR 0xF0, CHR 0x9F, CHR 0x94, CHR 0x97]"

definition cross_mark :: string where
  "cross_mark = [CHR 0xE2, CHR 0x9D, CHR 0x8C]"

text \<open>A computation that prints and may raise: what it printed, and its result.\<close>

type_synonym 'a printing = "string list \<times> (exn + 'a)"

definition out_bind :: "'a printing \<Rightarrow> ('a \<Rightarrow> 'b printing) \<Rightarrow> 'b printing" where
  "out_bind m f =
     (case m of
        (out, Inl e) \<Rightarrow> (out, Inl e)
      | (out, Inr x) \<Rightarrow> (case f x of (out', r) \<Rightarrow> (out @ out', r)))"

definition print :: "string \<Rightarrow> unit printing" where
  "print s = ([s], Inr ())"

definition lift :: "exn + 'a \<Rightarrow> 'a printing" where
  "lift r = ([], r)"

subsection \<open>More operators on decoded JSON\<close>

text \<open>\<^verbatim>\<open>d.get(key, default)\<close>, the truth value of an object, and iteration over it.\<close>

fun dict_get :: "json \<Rightarrow> string \<Rightarrow> json \<Rightarrow> exn + json" where
  "dict_get (JObj kvs) key dflt = Inr (case map_of kvs key of Some v \<Rightarrow> v | None \<Rightarrow> dflt)"
| "dict_get v key dflt = Inl (AttributeError [])"

fun py_truthy :: "json \<Rightarrow> bool" where
  "py_truthy JNull = False"
| "py_truthy (JBool b) = b"
| "py_truthy (JInt n) = (n \<noteq> 0)"
| "py_truthy (JFloat x) = (x \<noteq> 0)"
| "py_truthy (JStr s) = (s \<noteq> [])"
| "py_truthy (JArr xs) = (xs \<noteq> [])"
| "py_truthy (JObj kvs) = (kvs \<noteq> [])"

fun py_iter :: "json \<Rightarrow> exn + json list" where
  "py_iter (JArr xs) = Inr xs"
| "py_iter (JObj kvs) = Inr (map (\<lambda>kv. JStr (fst kv)) kvs)"
| "py_iter (JStr s) = Inr (map (\<lambda>c. JStr [c]) s)"
| "py_iter v = Inl (TypeError [])"

subsection \<open>The scan command\<close>

text \<open>cli.py, lines 62 to 64.\<close>

fun print_gpus :: "(json \<Rightarrow> string) \<Rightarrow> json list \<Rightarrow> unit printing" where
  "print_gpus fmt [] = ([], Inr ())"
| "print_gpus fmt (g # rest) =
     out_bind (lift (dict_get g ''vram_total_gb'' (JStr ''Unified''))) (\<lambda>vram.
     out_bind (lift (py_getitem g ''name'')) (\<lambda>name.
     out_bind (print (''   '' @ game_pad @ '' GPU: '' @ py_str fmt name
                      @ '' (VRAM: '' @ py_str fmt vram @ '' GB)'')) (\<lambda>_.
     print_gpus fmt rest)))"

text \<open>cli.py, lines 57 to 67: the summary. A section that a collector left empty
  has no \<^verbatim>\<open>brand\<close>, \<^verbatim>\<open>logical_cores\<close> or \<^verbatim>\<open>total_gb\<close>, and the lookup raises.\<close>

definition print_summary :: "(json \<Rightarrow> string) \<Rightarrow> json \<Rightarrow> unit printing" where
  "print_summary fmt system_metrics =
     out_bind (print (newline @ magnifier @ '' DETECTED SPECIFICATIONS:'')) (\<lambda>_.
     out_bind (lift (bind_exn (py_getitem system_metrics ''cpu'')
                       (\<lambda>cpu. py_getitem cpu ''brand''))) (\<lambda>brand.
     out_bind (print (''   '' @ laptop @ '' CPU: '' @ py_str fmt brand)) (\<lambda>_.
     out_bind (lift (bind_exn (py_getitem system_metrics ''cpu'')
                       (\<lambda>cpu. py_getitem cpu ''logical_cores''))) (\<lambda>cores.
     out_bind (print (''   '' @ gear @ ''  Threads: '' @ py_str fmt cores
                      @ '' Logical Cores'')) (\<lambda>_.
     out_bind (lift (bind_exn (py_getitem system_metrics ''ram'')
                       (\<lambda>ram. py_getitem ram ''total_gb''))) (\<lambda>total.
     out_bind (print (''   '' @ brain @ '' RAM: '' @ py_str fmt total @ '' GB'')) (\<lambda>_.
     out_bind (lift (py_getitem system_metrics ''gpu'')) (\<lambda>gpus.
     out_bind (if py_truthy gpus
               then out_bind (lift (py_iter gpus)) (print_gpus fmt)
               else print (''   '' @ game_pad @ '' GPU: No dedicated GPU detected.'')) (\<lambda>_.
     print (replicate 50 CHR ''-'' @ newline))))))))))"

text \<open>cli.py, lines 70 to 74.\<close>

definition payload_of :: "json \<Rightarrow> json \<Rightarrow> json" where
  "payload_of device_uuid system_metrics =
     JObj [(''device_id'', device_uuid),
           (''metrics'', system_metrics),
           (''timestamp'', JStr ''Now'')]"

text \<open>cli.py, lines 77 to 84.\<close>

definition notice :: "string \<Rightarrow> string list" where
  "notice backend_url =
     [replicate 50 CHR ''-'',
      ''NOTICE: Only hardware capability metrics (CPU/RAM/GPU/Disk Space)'',
      ''are being collected to determine LLM compatibility.'',
      ''NO personal files, browsing history, or private data is accessed.'',
      replicate 50 CHR ''-'',
      ''Sending report to backend at '' @ backend_url @ ''...'']"

text \<open>cli.py, lines 94 to 95. (\<^verbatim>\<open>dashboard_url\<close> of line 92 is never read.)\<close>

definition final_link :: "(json \<Rightarrow> string) \<Rightarrow> string \<Rightarrow> json \<Rightarrow> string" where
  "final_link fmt backend_url device_uuid =
     (let base_url = hd (split backend_url ''/api'')
      in base_url @ ''/?deviceId='' @ py_str fmt device_uuid)"

text \<open>cli.py, lines 88 to 99 and line 101.\<close>

definition success_lines :: "(json \<Rightarrow> string) \<Rightarrow> string \<Rightarrow> json \<Rightarrow> string list" where
  "success_lines fmt backend_url device_uuid =
     [newline @ replicate 50 CHR ''='',
      party @ '' SUCCESS! Hardware profile updated.'',
      link_sign @ '' VIEW YOUR REPORT HERE:'',
      ''   '' @ final_link fmt backend_url device_uuid,
      replicate 50 CHR ''='' @ newline]"

definition failure_line :: "(json \<Rightarrow> string) \<Rightarrow> send_result \<Rightarrow> string" where
  "failure_line fmt result =
     cross_mark @ '' Failed to reach server. Error: ''
       @ (case result of Message m \<Rightarrow> m | Body b \<Rightarrow> py_str fmt b)"

text \<open>
  How a run ends: \<^verbatim>\<open>run_scan\<close> returns, calls \<^verbatim>\<open>sys.exit\<close>, or lets an exception
  escape. The interpreter turns the first into exit status 0 and an uncaught
  exception into status 1.
\<close>

datatype ending = Returned | SysExit int | Raised exn

fun exit_status :: "ending \<Rightarrow> int" where
  "exit_status Returned = 0"
| "exit_status (SysExit n) = n"
| "exit_status (Raised e) = 1"

record run =
  stdout :: "string list"
  posted :: "request list"
  world_after :: world
  outcome :: ending

text \<open>cli.py, lines 39 to 102. \<open>posted\<close> lists the requests handed to
  \<^verbatim>\<open>requests.post\<close>.\<close>

definition run_scan ::
  "(json \<Rightarrow> string) \<Rightarrow> (request \<Rightarrow> exn + response) \<Rightarrow> env \<Rightarrow> world \<Rightarrow> string \<Rightarrow> run" where
  "run_scan fmt post env w backend_url =
     (case get_or_create_device_id w of
        (Inl e, w1) \<Rightarrow>
          \<lparr> stdout = [], posted = [], world_after = w1, outcome = Raised e \<rparr>
      | (Inr device_uuid, w1) \<Rightarrow>
          (let out1 = [check_mark @ '' Device Identified: '' @ py_str fmt device_uuid,
                       ''Running hardware diagnostics (this may take a few seconds)...''];
               (system_metrics, out2) = scan_system env;
               (out3, r) = print_summary fmt system_metrics
           in case r of
                Inl e \<Rightarrow>
                  \<lparr> stdout = out1 @ out2 @ out3, posted = [], world_after = w1,
                    outcome = Raised e \<rparr>
              | Inr u \<Rightarrow>
                  (let payload = payload_of device_uuid system_metrics;
                       out4 = notice backend_url;
                       (success, result) = send_data post payload backend_url
                   in if success
                      then \<lparr> stdout = out1 @ out2 @ out3 @ out4
                                      @ success_lines fmt backend_url device_uuid,
                             posted = [send_data_request payload backend_url],
                             world_after = w1, outcome = Returned \<rparr>
                      else \<lparr> stdout = out1 @ out2 @ out3 @ out4 @ [failure_line fmt result],
                             posted = [send_data_request payload backend_url],
                             world_after = w1, outcome = SysExit 1 \<rparr>)))"

section \<open>Sample machines\<close>

text \<open>
  Concrete inputs on which the theorems below are evaluated. \<open>bare_env\<close> is a Linux
  machine on which every probe fails; the others differ from it in a few probes.
\<close>

definition bare_env :: env where
  "bare_env =
     \<lparr> platform_system = ''Linux'',
       platform_release = ''6.1.0'',
       platform_version = ''#1 SMP'',
       platform_processor = ''x86_64'',
       platform_machine = ''x86_64'',
       wmic_cpu_name = Inl (OSError ''wmic: not found''),
       cpu_count_physical = Inl (OSError []),
       cpu_count_logical = Inl (OSError []),
       cpu_freq_first = Inl (OSError []),
       cpu_freq_second = Inl (OSError []),
       cpu_percent = Inl (OSError []),
       virtual_memory = Inl (OSError []),
       disk_usage = Inl (OSError []),
       gputil_getGPUs = Inl (ImportError ''No module named GPUtil''),
       import_torch = Inl (ImportError ''No module named torch''),
       wmic_video = Inl (OSError ''wmic: not found'') \<rparr>"

definition wmic_table :: string where
  "wmic_table =
     ''AdapterRAM   Name   '' @ [CHR 0x0D, CHR 0x0D, CHR 0x0A]
     @ ''1073741824   Intel(R) UHD Graphics  '' @ [CHR 0x0D, CHR 0x0D, CHR 0x0A]"

definition nvidia_env :: env where
  "nvidia_env =
     bare_env\<lparr> gputil_getGPUs :=
                  Inr [\<lparr> gpu_name = ''NVIDIA GeForce RTX 3080'', memoryTotal = 10240,
                         memoryFree = 8192 \<rparr>],
                wmic_video := Inr wmic_table,
                platform_system := ''Windows'' \<rparr>"

definition mps_torch :: torch where
  "mps_torch =
     \<lparr> cuda_is_available = Inr False,
       cuda_device_count = Inr 0,
       cuda_get_device_properties = (\<lambda>i. Inl (RuntimeError ''no CUDA'')),
       backends_has_mps = True,
       mps_is_available = Inr True \<rparr>"

definition apple_env :: env where
  "apple_env = bare_env\<lparr> platform_system := ''Darwin'', import_torch := Inr mps_torch \<rparr>"

definition windows_env :: env where
  "windows_env = bare_env\<lparr> platform_system := ''Windows'', wmic_video := Inr wmic_table \<rparr>"

text \<open>A healthy Linux machine without a GPU.\<close>

definition linux_env :: env where
  "linux_env =
     bare_env\<lparr> cpu_count_physical := Inr (Some 4),
                cpu_count_logical := Inr (Some 8),
                cpu_freq_first := Inr (Some 3600),
                cpu_freq_second := Inr (Some 3600),
                cpu_percent := Inr 5,
                virtual_memory := Inr \<lparr> vm_total = 17179869184, vm_available = 8589934592,
                                        vm_percent = 50 \<rparr>,
                disk_usage := Inr \<lparr> du_total = 536870912000, du_free = 268435456000,
                                    du_percent = 50 \<rparr> \<rparr>"

section \<open>Sample worlds\<close>

text \<open>
  \<open>fresh_world\<close> is a first run: no directory yet, nothing fails. \<open>known_world v\<close>
  has an identity file that holds \<open>v\<close>. In \<open>readonly_world\<close> the directory is
  missing and cannot be created. \<open>corrupt_world\<close> has a file that does not decode
  and a disk on which the new file cannot be opened for writing.
\<close>

definition fresh_world :: world where
  "fresh_world =
     \<lparr> home = NoDir,
       makedirs_fault = None,
       write_fault = NoFault,
       urandom = (\<lambda>n. 0x0123456789abcdef0123456789abcdef + of_nat n),
       drawn = 0,
       now = ''2024-01-01 12:00:00.000000'',
       logged = [] \<rparr>"

definition stored_file :: "json \<Rightarrow> device_file" where
  "stored_file v =
     \<lparr> open_read_fault = None,
       content = Parsed (JObj [(''device_id'', v),
                               (''created_at'', JStr ''2023-06-01 08:00:00.000000'')]) \<rparr>"

definition known_world :: "json \<Rightarrow> world" where
  "known_world v = fresh_world\<lparr> home := Dir (Some (stored_file v)) \<rparr>"

definition readonly_world :: world where
  "readonly_world = fresh_world\<lparr> makedirs_fault := Some (OSError ''Permission denied'') \<rparr>"

definition corrupt_world :: world where
  "corrupt_world =
     fresh_world\<lparr> home := Dir (Some \<lparr> open_read_fault = None,
                                      content = Unparseable (ValueError ''Expecting value'') \<rparr>),
                   write_fault := OpenFails (OSError ''Read-only file system'') \<rparr>"

section \<open>Sample endpoints\<close>

text \<open>
  An endpoint that refuses the connection, and one that answers 201 with the body
  \<^verbatim>\<open>{"status": "ok"}\<close>. \<open>sample_str\<close> stands for \<^verbatim>\<open>str\<close> in the sample runs: it is
  exact on \<^verbatim>\<open>None\<close>, booleans and integers, and prints a placeholder for the
  other values.
\<close>

definition refusing_post :: "request \<Rightarrow> exn + response" where
  "refusing_post req = Inl (ConnectionError ''Connection refused'')"

definition accepting_post :: "request \<Rightarrow> exn + response" where
  "accepting_post req =
     Inr \<lparr> status_code = 201, reason = ''Created'', resp_url = req_url req,
           resp_json = Inr (JObj [(''status'', JStr ''ok'')]) \<rparr>"

definition sample_str :: "json \<Rightarrow> string" where
  "sample_str v =
     (case v of
        JNull \<Rightarrow> ''None''
      | JBool b \<Rightarrow> (if b then ''True'' else ''False'')
      | JInt n \<Rightarrow> (if n < 0 then ''-'' else []) @ show_nat (nat \<bar>n\<bar>)
      | _ \<Rightarrow> ''...'')"

section \<open>Verified properties\<close>

subsection \<open>URL normalisation\<close>

lemma takeWhile_eq_replicate:
  "takeWhile (\<lambda>x. x = c) xs = replicate (length (takeWhile (\<lambda>x. x = c) xs)) c"
  by (induction xs) auto

lemma rstrip_char_decomp: "\<exists>k. s = rstrip_char c s @ replicate k c"
proof -
  let ?P = "\<lambda>x. x = c"
  have "rev (dropWhile ?P (rev s)) @ rev (takeWhile ?P (rev s)) = s"
    by (simp flip: rev_append)
  moreover have "rev (takeWhile ?P (rev s)) = replicate (length (takeWhile ?P (rev s))) c"
    using takeWhile_eq_replicate [of c "rev s"] by (metis rev_replicate)
  ultimately have "s = rstrip_char c s @ replicate (length (takeWhile ?P (rev s))) c"
    by (simp add: rstrip_char_def)
  then show ?thesis ..
qed

lemma dropWhile_no_head: "\<not> prefix [c] (dropWhile (\<lambda>x. x = c) xs)"
  by (induction xs) auto

lemma rstrip_char_no_trailing: "\<not> suffix [c] (rstrip_char c s)"
  using dropWhile_no_head [of c "rev s"] by (simp add: rstrip_char_def suffix_to_prefix)

lemma send_data_only_posts_request:
  "post (send_data_request report_data api_url) = post' (send_data_request report_data api_url)
     \<Longrightarrow> send_data post report_data api_url = send_data post' report_data api_url"
  by (simp add: send_data_def send_data_try_def)

text \<open>
  Claim C3. The request of \<^verbatim>\<open>send_data\<close> goes to the normalised URL, and to no other:
  the result depends on the network only through the answer to that one request.
  A URL that ends with \<^verbatim>\<open>/api/device/register\<close> is left as it is. Any other URL
  loses all its trailing slashes (what remains does not end with a slash, and
  differs from the input by slashes only) and receives the suffix. Either way the
  result ends with the suffix, and \<^verbatim>\<open>http://host:3001\<close> becomes
  \<^verbatim>\<open>http://host:3001/api/device/register\<close>.
\<close>

theorem send_data_normalizes_url:
  "req_url (send_data_request report_data api_url) = normalize_url api_url \<and>
   (post (send_data_request report_data api_url) = post' (send_data_request report_data api_url)
      \<longrightarrow> send_data post report_data api_url = send_data post' report_data api_url) \<and>
   (suffix register_path api_url \<longrightarrow> normalize_url api_url = api_url) \<and>
   (\<not> suffix register_path api_url \<longrightarrow>
      normalize_url api_url = rstrip_char CHR ''/'' api_url @ register_path \<and>
      \<not> suffix ''/'' (rstrip_char CHR ''/'' api_url) \<and>
      (\<exists>k. api_url = rstrip_char CHR ''/'' api_url @ replicate k CHR ''/'')) \<and>
   suffix register_path (normalize_url api_url) \<and>
   normalize_url ''http://host:3001'' = ''http://host:3001/api/device/register''"
proof (intro conjI impI)
  show "req_url (send_data_request report_data api_url) = normalize_url api_url"
    by (simp add: send_data_request_def)
next
  assume "post (send_data_request report_data api_url) = post' (send_data_request report_data api_url)"
  then show "send_data post report_data api_url = send_data post' report_data api_url"
    by (rule send_data_only_posts_request)
next
  assume "suffix register_path api_url"
  then show "normalize_url api_url = api_url"
    by (simp add: normalize_url_def)
next
  assume "\<not> suffix register_path api_url"
  then show "normalize_url api_url = rstrip_char CHR ''/'' api_url @ register_path"
    by (simp add: normalize_url_def)
next
  show "\<not> suffix ''/'' (rstrip_char CHR ''/'' api_url)"
    by (rule rstrip_char_no_trailing)
next
  show "\<exists>k. api_url = rstrip_char CHR ''/'' api_url @ replicate k CHR ''/''"
    by (rule rstrip_char_decomp)
next
  show "suffix register_path (normalize_url api_url)"
    by (simp add: normalize_url_def suffix_def)
next
  show "normalize_url ''http://host:3001'' = ''http://host:3001/api/device/register''"
    by (simp add: normalize_url_def register_path_def rstrip_char_def suffix_to_prefix)
qed

theorem send_data_normalizes_url_witness:
  "\<not> suffix register_path ''http://host:3001//'' \<and>
   req_url (send_data_request JNull ''http://host:3001//'') = ''http://host:3001/api/device/register'' \<and>
   suffix register_path ''http://host:3001/api/device/register'' \<and>
   normalize_url ''http://host:3001/api/device/register'' = ''http://host:3001/api/device/register''"
proof -
  have a: "\<not> suffix register_path ''http://host:3001//''"
    by (simp add: register_path_def suffix_to_prefix)
  have b: "suffix register_path ''http://host:3001/api/device/register''"
    by (simp add: register_path_def suffix_to_prefix)
  have r: "rstrip_char CHR ''/'' ''http://host:3001//'' @ register_path
             = ''http://host:3001/api/device/register''"
    by (simp add: rstrip_char_def register_path_def)
  note t1 = send_data_normalizes_url [of JNull "''http://host:3001//''"]
  note t2 = send_data_normalizes_url [of JNull "''http://host:3001/api/device/register''"]
  have "normalize_url ''http://host:3001//'' = ''http://host:3001/api/device/register''"
    using t1 a r by simp
  moreover have "req_url (send_data_request JNull ''http://host:3001//'')
                   = normalize_url ''http://host:3001//''"
    using t1 by (rule conjunct1)
  moreover have "normalize_url ''http://host:3001/api/device/register''
                   = ''http://host:3001/api/device/register''"
    using t2 b by simp
  ultimately show ?thesis
    using a b by simp
qed

subsection \<open>VRAM of the WMIC strategy\<close>






lemma bit_length_0: "bit_length 0 = 0"
  by (simp add: bit_length.simps)

lemma bit_length_pos: "0 < n \<Longrightarrow> bit_length n = Suc (bit_length (n div 2))"
  by (subst bit_length.simps) simp

lemma bit_length_bounds:
  "0 < n \<Longrightarrow> 2 ^ (bit_length n - 1) \<le> n \<and> n < 2 ^ bit_length n"
proof (induction n rule: bit_length.induct)
  case (1 n)
  have bl: "bit_length n = Suc (bit_length (n div 2))"
    using 1(2) by (rule bit_length_pos)
  show ?case
  proof (cases "n div 2 = 0")
    case True
    then have "n < 2" by (simp add: div_eq_0_iff)
    with 1(2) have "n = 1" by linarith
    then show ?thesis
      using bl True by (simp add: bit_length_0)
  next
    case False
    then have pos: "0 < n div 2" by simp
    from 1(1) pos 1(2)
    have ih: "2 ^ (bit_length (n div 2) - 1) \<le> n div 2" "n div 2 < 2 ^ bit_length (n div 2)"
      by simp_all
    have nz: "bit_length (n div 2) = Suc (bit_length (n div 2) - 1)"
      using bit_length_pos [OF pos] by simp
    have "(2::nat) ^ (bit_length n - 1) = 2 ^ bit_length (n div 2)"
      using bl by simp
    also have "\<dots> = 2 * 2 ^ (bit_length (n div 2) - 1)"
      by (subst nz) simp
    also have "\<dots> \<le> 2 * (n div 2)"
      using ih(1) by simp
    also have "\<dots> \<le> n"
      by simp
    finally have lo: "2 ^ (bit_length n - 1) \<le> n" .
    have "n < 2 * (n div 2) + 2"
      by presburger
    also have "\<dots> \<le> 2 * 2 ^ bit_length (n div 2)"
      using ih(2) by simp
    finally have "n < 2 ^ bit_length n"
      using bl by simp
    with lo show ?thesis ..
  qed
qed

lemma bit_length_le_iff: "bit_length n \<le> k \<longleftrightarrow> n < 2 ^ k"
proof (cases "n = 0")
  case True
  then show ?thesis by (simp add: bit_length_0)
next
  case False
  then have b: "2 ^ (bit_length n - 1) \<le> n" "n < 2 ^ bit_length n"
    using bit_length_bounds [of n] by simp_all
  show ?thesis
  proof
    assume "bit_length n \<le> k"
    then have "(2::nat) ^ bit_length n \<le> 2 ^ k"
      by (simp add: power_increasing)
    with b(2) show "n < 2 ^ k" by linarith
  next
    assume n: "n < 2 ^ k"
    show "bit_length n \<le> k"
    proof (rule ccontr)
      assume "\<not> bit_length n \<le> k"
      then have "k \<le> bit_length n - 1" by simp
      then have "(2::nat) ^ k \<le> 2 ^ (bit_length n - 1)"
        by (simp add: power_increasing)
      with b(1) n show False by linarith
    qed
  qed
qed


lemma round_half_even_tie:
  assumes "even k"
  shows "round_half_even (of_int k + 1 / 2) = k"
proof -
  have "\<lfloor>(of_int k :: rat) + 1 / 2\<rfloor> = k"
    by (rule floor_unique) simp_all
  with assms show ?thesis
    by (simp add: round_half_even_def Let_def)
qed

lemma truediv_gib_exact:
  assumes "\<bar>n\<bar> < 2 ^ 53"
  shows "truediv_gib n = Inr (of_int n / 1024 ^ 3)"
proof -
  have "nat \<bar>n\<bar> < 2 ^ 53"
    using assms by (simp add: nat_less_iff)
  then have "bit_length (nat \<bar>n\<bar>) \<le> 53"
    by (simp only: bit_length_le_iff)
  then show ?thesis
    by (simp add: truediv_gib_def Let_def)
qed


lemma wmic_vram_gb_exact:
  assumes "\<bar>vram_bytes\<bar> < 2 ^ 53"
  shows "wmic_vram_gb vram_bytes =
           Inr (if py_round2 (of_int \<bar>vram_bytes\<bar> / 1024 ^ 3) < 1 / 10 then JInt 0
                else JFloat (py_round2 (of_int \<bar>vram_bytes\<bar> / 1024 ^ 3)))"
proof -
  have "truediv_gib \<bar>vram_bytes\<bar> = Inr (of_int \<bar>vram_bytes\<bar> / 1024 ^ 3)"
    using assms by (intro truediv_gib_exact) simp
  then show ?thesis
    by (simp add: wmic_vram_gb_def gib_def bind_exn_def)
qed



text \<open>The first value at which the double rounding of line 128 shows: the exact
  quotient of \<open>2 ^ 53 + 2 ^ 27 + 1\<close> is just above 8388608.125 and would round to
  8388608.13, but the double is 8388608.125 exactly, a tie that goes to 8388608.12.\<close>

lemma wmic_vram_gb_beyond_53_bits:
  "wmic_vram_gb 9007199388958721 = Inr (JFloat (838860812 / 100))"
proof -
  have "\<not> nat \<bar>9007199388958721\<bar> < 2 ^ 53" and "nat \<bar>9007199388958721\<bar> < 2 ^ 54"
    by simp_all
  then have "\<not> bit_length (nat \<bar>9007199388958721\<bar>) \<le> 53"
    and "bit_length (nat \<bar>9007199388958721\<bar>) \<le> 54"
    by (simp_all only: bit_length_le_iff not_False_eq_True)
  then have bits: "bit_length (nat \<bar>9007199388958721\<bar>) = 54"
    by linarith
  have "round_half_even (of_int 4503599694479360 + 1 / 2) = 4503599694479360"
    by (rule round_half_even_tie) simp
  then have m: "round_half_even (9007199388958721 / 2) = 4503599694479360"
    by simp
  have "round_half_even (of_int 838860812 + 1 / 2) = 838860812"
    by (rule round_half_even_tie) simp
  then have r: "py_round2 (67108865 / 8) = 838860812 / 100"
    by (simp add: py_round2_def)
  have "truediv_gib \<bar>9007199388958721\<bar> = Inr (67108865 / 8)"
    using bits m by (simp add: truediv_gib_def Let_def)
  then show ?thesis
    using r by (simp add: wmic_vram_gb_def gib_def bind_exn_def)
qed




subsection \<open>GPU strategies in order\<close>

lemma get_gpu_info_cases:
  "get_gpu_info env =
     (if gputil_strategy env \<noteq> [] then (gputil_strategy env, [GPUtil])
      else if torch_strategy env \<noteq> [] then (torch_strategy env, [GPUtil, Torch])
      else if platform_system env = ''Windows'' then (wmic_strategy env, [GPUtil, Torch, WMIC])
      else ([], [GPUtil, Torch]))"
  by (simp add: get_gpu_info_def Let_def)

lemma gputil_nvidia:
  "gputil_strategy nvidia_env =
     [JObj [(''name'', JStr ''NVIDIA GeForce RTX 3080''), (''vram_total_gb'', JFloat 10),
            (''vram_free_gb'', JFloat 8), (''source'', JStr ''gputil'')]]"
  by (simp add: gputil_strategy_def nvidia_env_def bare_env_def gputil_entry_def py_round2_def
      round_half_even_def Let_def)

lemma gputil_apple: "gputil_strategy apple_env = []"
  by (simp add: gputil_strategy_def apple_env_def bare_env_def)

lemma torch_apple: "torch_strategy apple_env = [mps_entry]"
  by (simp add: torch_strategy_def apple_env_def bare_env_def mps_torch_def)

lemma gputil_windows: "gputil_strategy windows_env = []"
  by (simp add: gputil_strategy_def windows_env_def bare_env_def)

lemma torch_windows: "torch_strategy windows_env = []"
  by (simp add: torch_strategy_def windows_env_def bare_env_def)

lemma gputil_bare: "gputil_strategy bare_env = []"
  by (simp add: gputil_strategy_def bare_env_def)

lemma torch_bare: "torch_strategy bare_env = []"
  by (simp add: torch_strategy_def bare_env_def)

lemma wmic_lines:
  "output_lines wmic_table = [''AdapterRAM   Name'', ''1073741824   Intel(R) UHD Graphics'']"
  by (simp add: output_lines_def wmic_table_def split_def strip_def is_space_def)

lemma split_intel:
  "split ''1073741824   Intel(R) UHD Graphics'' ''  ''
     = [''1073741824'', '' Intel(R) UHD Graphics'']"
  by (simp add: split_def)

lemma int_intel: "py_int ''1073741824'' = Some 1073741824"
  by (simp add: py_int_def strip_def is_space_def is_digit_def Let_def)

lemma vram_intel: "wmic_vram_gb 1073741824 = Inr (JFloat 1)"
proof -
  have "py_round2 (of_int \<bar>1073741824\<bar> / 1024 ^ 3) = 1"
    by (simp add: py_round2_def round_half_even_def Let_def)
  then show ?thesis
    using wmic_vram_gb_exact [of 1073741824] by simp
qed

lemma wmic_entry_intel:
  "wmic_entry ''1073741824   Intel(R) UHD Graphics'' =
     Inr (JObj [(''name'', JStr ''Intel(R) UHD Graphics''), (''vram_total_gb'', JFloat 1),
                (''source'', JStr ''wmic'')])"
proof -
  have "strip ''1073741824'' = ''1073741824''"
    by (simp add: strip_def is_space_def)
  moreover have "strip '' Intel(R) UHD Graphics'' = ''Intel(R) UHD Graphics''"
    by (simp add: strip_def is_space_def)
  ultimately show ?thesis
    by (simp add: wmic_entry_def split_intel int_intel vram_intel bind_exn_def Let_def)
qed

lemma wmic_windows:
  "wmic_strategy windows_env =
     [JObj [(''name'', JStr ''Intel(R) UHD Graphics''), (''vram_total_gb'', JFloat 1),
            (''source'', JStr ''wmic'')]]"
  by (simp add: wmic_strategy_def windows_env_def bare_env_def wmic_lines wmic_entry_intel)

text \<open>
  Claim C1. \<^verbatim>\<open>get_gpu_info\<close> returns what the first strategy with at least one
  device appended, in the order GPUtil, torch, WMIC. When GPUtil yields a device,
  it is the only strategy entered; when it yields none and torch yields one, WMIC
  is not entered. WMIC is entered only when both yielded nothing and the platform
  is Windows. When nothing is found the result is the empty list. The probes of
  the strategies that are not entered have no influence: two machines that agree
  on the probes of the winning strategy and of those before it give the same
  result.
\<close>

theorem get_gpu_info_first_strategy:
  "(gputil_strategy env \<noteq> [] \<longrightarrow> get_gpu_info env = (gputil_strategy env, [GPUtil])) \<and>
   (gputil_strategy env = [] \<and> torch_strategy env \<noteq> []
      \<longrightarrow> get_gpu_info env = (torch_strategy env, [GPUtil, Torch])) \<and>
   (gputil_strategy env = [] \<and> torch_strategy env = [] \<and> platform_system env = ''Windows''
      \<longrightarrow> get_gpu_info env = (wmic_strategy env, [GPUtil, Torch, WMIC])) \<and>
   (gputil_strategy env = [] \<and> torch_strategy env = [] \<and> platform_system env \<noteq> ''Windows''
      \<longrightarrow> get_gpu_info env = ([], [GPUtil, Torch])) \<and>
   (gputil_strategy env = [] \<and> torch_strategy env = [] \<and>
    (platform_system env = ''Windows'' \<longrightarrow> wmic_strategy env = [])
      \<longrightarrow> fst (get_gpu_info env) = []) \<and>
   (gputil_strategy env \<noteq> [] \<and> gputil_getGPUs env' = gputil_getGPUs env
      \<longrightarrow> get_gpu_info env' = get_gpu_info env) \<and>
   (gputil_strategy env = [] \<and> torch_strategy env \<noteq> [] \<and>
    gputil_getGPUs env' = gputil_getGPUs env \<and> import_torch env' = import_torch env
      \<longrightarrow> get_gpu_info env' = get_gpu_info env)"
proof (intro conjI impI)
  assume "gputil_strategy env \<noteq> []"
  then show "get_gpu_info env = (gputil_strategy env, [GPUtil])"
    by (simp add: get_gpu_info_cases)
next
  assume "gputil_strategy env = [] \<and> torch_strategy env \<noteq> []"
  then show "get_gpu_info env = (torch_strategy env, [GPUtil, Torch])"
    by (simp add: get_gpu_info_cases)
next
  assume "gputil_strategy env = [] \<and> torch_strategy env = [] \<and> platform_system env = ''Windows''"
  then show "get_gpu_info env = (wmic_strategy env, [GPUtil, Torch, WMIC])"
    by (simp add: get_gpu_info_cases)
next
  assume "gputil_strategy env = [] \<and> torch_strategy env = [] \<and> platform_system env \<noteq> ''Windows''"
  then show "get_gpu_info env = ([], [GPUtil, Torch])"
    by (simp add: get_gpu_info_cases)
next
  assume "gputil_strategy env = [] \<and> torch_strategy env = [] \<and>
    (platform_system env = ''Windows'' \<longrightarrow> wmic_strategy env = [])"
  then show "fst (get_gpu_info env) = []"
    by (simp add: get_gpu_info_cases)
next
  assume a: "gputil_strategy env \<noteq> [] \<and> gputil_getGPUs env' = gputil_getGPUs env"
  then have "gputil_strategy env' = gputil_strategy env"
    by (simp add: gputil_strategy_def)
  with a show "get_gpu_info env' = get_gpu_info env"
    by (simp add: get_gpu_info_cases)
next
  assume a: "gputil_strategy env = [] \<and> torch_strategy env \<noteq> [] \<and>
    gputil_getGPUs env' = gputil_getGPUs env \<and> import_torch env' = import_torch env"
  then have "gputil_strategy env' = gputil_strategy env"
    and "torch_strategy env' = torch_strategy env"
    by (simp_all add: gputil_strategy_def torch_strategy_def)
  with a show "get_gpu_info env' = get_gpu_info env"
    by (simp add: get_gpu_info_cases)
qed

theorem get_gpu_info_first_strategy_witness:
  "get_gpu_info nvidia_env =
     ([JObj [(''name'', JStr ''NVIDIA GeForce RTX 3080''), (''vram_total_gb'', JFloat 10),
             (''vram_free_gb'', JFloat 8), (''source'', JStr ''gputil'')]], [GPUtil]) \<and>
   get_gpu_info apple_env = ([mps_entry], [GPUtil, Torch]) \<and>
   get_gpu_info windows_env =
     ([JObj [(''name'', JStr ''Intel(R) UHD Graphics''), (''vram_total_gb'', JFloat 1),
             (''source'', JStr ''wmic'')]], [GPUtil, Torch, WMIC]) \<and>
   get_gpu_info bare_env = ([], [GPUtil, Torch])"
proof -
  have linux: "platform_system bare_env \<noteq> ''Windows''"
    by (simp add: bare_env_def)
  have windows: "platform_system windows_env = ''Windows''"
    by (simp add: windows_env_def)
  have n: "gputil_strategy nvidia_env \<noteq> []"
    by (simp add: gputil_nvidia)
  have a: "gputil_strategy apple_env = [] \<and> torch_strategy apple_env \<noteq> []"
    by (simp add: gputil_apple torch_apple)
  have w: "gputil_strategy windows_env = [] \<and> torch_strategy windows_env = [] \<and>
           platform_system windows_env = ''Windows''"
    by (simp add: gputil_windows torch_windows windows)
  have b: "gputil_strategy bare_env = [] \<and> torch_strategy bare_env = [] \<and>
           platform_system bare_env \<noteq> ''Windows''"
    by (simp add: gputil_bare torch_bare linux)
  note t = get_gpu_info_first_strategy
  have "get_gpu_info nvidia_env = (gputil_strategy nvidia_env, [GPUtil])"
    using t [of nvidia_env nvidia_env, THEN conjunct1] n by (rule mp)
  moreover have "get_gpu_info apple_env = (torch_strategy apple_env, [GPUtil, Torch])"
    using t [of apple_env apple_env, THEN conjunct2, THEN conjunct1] a by (rule mp)
  moreover have "get_gpu_info windows_env = (wmic_strategy windows_env, [GPUtil, Torch, WMIC])"
    using t [of windows_env windows_env, THEN conjunct2, THEN conjunct2, THEN conjunct1] w
    by (rule mp)
  moreover have "get_gpu_info bare_env = ([], [GPUtil, Torch])"
    using t [of bare_env bare_env, THEN conjunct2, THEN conjunct2, THEN conjunct2, THEN conjunct1] b
    by (rule mp)
  ultimately show ?thesis
    by (simp add: gputil_nvidia torch_apple wmic_windows)
qed

subsection \<open>The snapshot always has its five sections\<close>

lemma get_cpu_info_failed:
  assumes "cpu_count_physical env = Inl e \<or> cpu_count_logical env = Inl e \<or>
           cpu_freq_first env = Inl e \<or> cpu_percent env = Inl e"
  shows "get_cpu_info env = JObj []"
proof -
  have "\<exists>e'. get_cpu_info_try env = Inl e'"
    using assms
    by (auto simp: get_cpu_info_try_def frequency_max_def bind_exn_def Let_def
        split: sum.splits option.splits)
  then show ?thesis
    by (auto simp: get_cpu_info_def)
qed

lemma get_cpu_info_shape:
  "\<exists>kvs. get_cpu_info env = JObj kvs \<and>
     (kvs = [] \<or> map fst kvs = [''brand'', ''architecture'', ''physical_cores'',
                                  ''logical_cores'', ''frequency_max'', ''usage_percent''])"
  by (auto simp: get_cpu_info_def get_cpu_info_try_def bind_exn_def Let_def split: sum.splits)

lemma get_ram_info_shape:
  "\<exists>kvs. get_ram_info env = JObj kvs \<and>
     (kvs = [] \<or> map fst kvs = [''total_gb'', ''available_gb'', ''percent_used''])"
  by (auto simp: get_ram_info_def get_ram_info_try_def bind_exn_def split: sum.splits)

lemma get_disk_info_shape:
  "\<exists>kvs. get_disk_info env = JObj kvs \<and>
     (kvs = [] \<or> map fst kvs = [''total_gb'', ''free_gb'', ''percent_used''])"
  by (auto simp: get_disk_info_def get_disk_info_try_def bind_exn_def split: sum.splits)

lemma get_gpu_info_all_failed:
  assumes "gputil_getGPUs env = Inl e1" and "import_torch env = Inl e2"
    and "platform_system env = ''Windows'' \<longrightarrow> wmic_video env = Inl e3"
  shows "fst (get_gpu_info env) = []"
  using assms
  by (simp add: get_gpu_info_cases gputil_strategy_def torch_strategy_def wmic_strategy_def)

text \<open>
  Claim C2. \<^verbatim>\<open>scan_system\<close> has a result for every machine: the model has no
  path on which it raises, since each collector turns the exception of any of its
  probes into its empty value. The result is a dictionary with exactly the keys
  \<^verbatim>\<open>os\<close>, \<^verbatim>\<open>cpu\<close>, \<^verbatim>\<open>ram\<close>, \<^verbatim>\<open>storage\<close> and \<^verbatim>\<open>gpu\<close>, in this order. The first
  four are dictionaries, empty or with all their keys, and \<^verbatim>\<open>gpu\<close> is a list. A
  failed CPU, RAM or disk probe leaves the empty dictionary in its section, and
  when every GPU strategy fails the list is empty.
\<close>

theorem scan_system_total_shape:
  "fst (scan_system env) =
     JObj [(''os'', JObj [(''system'', JStr (platform_system env)),
                          (''release'', JStr (platform_release env)),
                          (''version'', JStr (platform_version env))]),
           (''cpu'', get_cpu_info env),
           (''ram'', get_ram_info env),
           (''storage'', get_disk_info env),
           (''gpu'', JArr (fst (get_gpu_info env)))] \<and>
   (\<exists>kvs. get_cpu_info env = JObj kvs \<and>
      (kvs = [] \<or> map fst kvs = [''brand'', ''architecture'', ''physical_cores'',
                                   ''logical_cores'', ''frequency_max'', ''usage_percent''])) \<and>
   (\<exists>kvs. get_ram_info env = JObj kvs \<and>
      (kvs = [] \<or> map fst kvs = [''total_gb'', ''available_gb'', ''percent_used''])) \<and>
   (\<exists>kvs. get_disk_info env = JObj kvs \<and>
      (kvs = [] \<or> map fst kvs = [''total_gb'', ''free_gb'', ''percent_used''])) \<and>
   ((\<exists>e. cpu_count_physical env = Inl e \<or> cpu_count_logical env = Inl e \<or>
          cpu_freq_first env = Inl e \<or> cpu_percent env = Inl e)
      \<longrightarrow> get_cpu_info env = JObj []) \<and>
   ((\<exists>e. virtual_memory env = Inl e) \<longrightarrow> get_ram_info env = JObj []) \<and>
   ((\<exists>e. disk_usage env = Inl e) \<longrightarrow> get_disk_info env = JObj []) \<and>
   ((\<exists>e. gputil_getGPUs env = Inl e) \<and> (\<exists>e. import_torch env = Inl e) \<and>
    (platform_system env = ''Windows'' \<longrightarrow> (\<exists>e. wmic_video env = Inl e))
      \<longrightarrow> fst (get_gpu_info env) = [])"
proof (intro conjI impI)
  show "fst (scan_system env) =
     JObj [(''os'', JObj [(''system'', JStr (platform_system env)),
                          (''release'', JStr (platform_release env)),
                          (''version'', JStr (platform_version env))]),
           (''cpu'', get_cpu_info env),
           (''ram'', get_ram_info env),
           (''storage'', get_disk_info env),
           (''gpu'', JArr (fst (get_gpu_info env)))]"
    by (simp add: scan_system_def)
next
  show "\<exists>kvs. get_cpu_info env = JObj kvs \<and>
      (kvs = [] \<or> map fst kvs = [''brand'', ''architecture'', ''physical_cores'',
                                   ''logical_cores'', ''frequency_max'', ''usage_percent''])"
    by (rule get_cpu_info_shape)
next
  show "\<exists>kvs. get_ram_info env = JObj kvs \<and>
      (kvs = [] \<or> map fst kvs = [''total_gb'', ''available_gb'', ''percent_used''])"
    by (rule get_ram_info_shape)
next
  show "\<exists>kvs. get_disk_info env = JObj kvs \<and>
      (kvs = [] \<or> map fst kvs = [''total_gb'', ''free_gb'', ''percent_used''])"
    by (rule get_disk_info_shape)
next
  assume "\<exists>e. cpu_count_physical env = Inl e \<or> cpu_count_logical env = Inl e \<or>
          cpu_freq_first env = Inl e \<or> cpu_percent env = Inl e"
  then show "get_cpu_info env = JObj []"
    using get_cpu_info_failed by blast
next
  assume "\<exists>e. virtual_memory env = Inl e"
  then show "get_ram_info env = JObj []"
    by (auto simp: get_ram_info_def get_ram_info_try_def bind_exn_def)
next
  assume "\<exists>e. disk_usage env = Inl e"
  then show "get_disk_info env = JObj []"
    by (auto simp: get_disk_info_def get_disk_info_try_def bind_exn_def)
next
  assume "(\<exists>e. gputil_getGPUs env = Inl e) \<and> (\<exists>e. import_torch env = Inl e) \<and>
    (platform_system env = ''Windows'' \<longrightarrow> (\<exists>e. wmic_video env = Inl e))"
  then show "fst (get_gpu_info env) = []"
    using get_gpu_info_all_failed by blast
qed

theorem scan_system_total_shape_witness:
  "cpu_count_physical bare_env = Inl (OSError []) \<and>
   virtual_memory bare_env = Inl (OSError []) \<and>
   disk_usage bare_env = Inl (OSError []) \<and>
   fst (scan_system bare_env) =
     JObj [(''os'', JObj [(''system'', JStr ''Linux''), (''release'', JStr ''6.1.0''),
                          (''version'', JStr ''#1 SMP'')]),
           (''cpu'', JObj []), (''ram'', JObj []), (''storage'', JObj []), (''gpu'', JArr [])]"
proof -
  note t = scan_system_total_shape [of bare_env]
  have p: "cpu_count_physical bare_env = Inl (OSError [])"
    and v: "virtual_memory bare_env = Inl (OSError [])"
    and d: "disk_usage bare_env = Inl (OSError [])"
    and g: "gputil_getGPUs bare_env = Inl (ImportError ''No module named GPUtil'')"
    and i: "import_torch bare_env = Inl (ImportError ''No module named torch'')"
    and s: "platform_system bare_env = ''Linux''"
    by (simp_all add: bare_env_def)
  have cpu: "get_cpu_info bare_env = JObj []"
    using t p by blast
  have ram: "get_ram_info bare_env = JObj []"
    using t v by blast
  have disk: "get_disk_info bare_env = JObj []"
    using t d by blast
  have gpu: "fst (get_gpu_info bare_env) = []"
    using t g i s by simp
  have "fst (scan_system bare_env) =
     JObj [(''os'', JObj [(''system'', JStr (platform_system bare_env)),
                          (''release'', JStr (platform_release bare_env)),
                          (''version'', JStr (platform_version bare_env))]),
           (''cpu'', get_cpu_info bare_env),
           (''ram'', get_ram_info bare_env),
           (''storage'', get_disk_info bare_env),
           (''gpu'', JArr (fst (get_gpu_info bare_env)))]"
    using t by (rule conjunct1)
  then show ?thesis
    using p v d by (simp add: cpu ram disk gpu) (simp add: bare_env_def)
qed

subsection \<open>The identity store: reading an intact file\<close>

lemma stored_id_is_returned:
  assumes "home w = Dir (Some f)" and "open_read_fault f = None"
    and "content f = Parsed (JObj kvs)" and "map_of kvs ''device_id'' = Some v"
  shows "get_or_create_device_id w = (Inr v, w)"
  using assms
  by (simp add: get_or_create_device_id_def ensure_dir_def device_file_of_def
      read_device_id_def bind_exn_def)

text \<open>
  Claim C6. With an identity file that can be opened and decodes to a dictionary
  with the key \<^verbatim>\<open>device_id\<close>, every call returns the stored value, and \<open>n\<close> calls
  in a row, within one run or over several, return it \<open>n\<close> times. The world after
  the calls is the world before them: the file is not rewritten, no identifier is
  drawn and nothing is logged.
\<close>

theorem device_id_is_stable:
  assumes "home w = Dir (Some f)" and "open_read_fault f = None"
    and "content f = Parsed (JObj kvs)" and "map_of kvs ''device_id'' = Some v"
  shows "repeated_calls n w = (replicate n (Inr v), w)"
proof (induction n)
  case 0
  show ?case by simp
next
  case (Suc n)
  have "get_or_create_device_id w = (Inr v, w)"
    using assms by (rule stored_id_is_returned)
  with Suc show ?case by simp
qed

theorem device_id_is_stable_witness:
  "repeated_calls (Suc (Suc (Suc 0))) (known_world (JStr ''01234567-89ab-4def-8123-456789abcdef''))
     = ([Inr (JStr ''01234567-89ab-4def-8123-456789abcdef''),
         Inr (JStr ''01234567-89ab-4def-8123-456789abcdef''),
         Inr (JStr ''01234567-89ab-4def-8123-456789abcdef'')],
        known_world (JStr ''01234567-89ab-4def-8123-456789abcdef''))"
proof -
  let ?v = "JStr ''01234567-89ab-4def-8123-456789abcdef''"
  have h: "home (known_world ?v) = Dir (Some (stored_file ?v))"
    by (simp add: known_world_def)
  have r: "open_read_fault (stored_file ?v) = None"
    by (simp add: stored_file_def)
  have c: "content (stored_file ?v) =
             Parsed (JObj [(''device_id'', ?v), (''created_at'', JStr ''2023-06-01 08:00:00.000000'')])"
    by (simp add: stored_file_def)
  have m: "map_of [(''device_id'', ?v), (''created_at'', JStr ''2023-06-01 08:00:00.000000'')]
             ''device_id'' = Some ?v"
    by simp
  show ?thesis
    using device_id_is_stable [OF h r c m, of "Suc (Suc (Suc 0))"] by simp
qed

text \<open>
  Claim C10. The value under \<^verbatim>\<open>device_id\<close> is returned as it is, whatever it is:
  nothing checks that it is a string or has the form of a UUID. No identifier is
  generated in its place, and no warning is logged.
\<close>

theorem device_id_is_not_validated:
  assumes "home w = Dir (Some f)" and "open_read_fault f = None"
    and "content f = Parsed (JObj kvs)" and "map_of kvs ''device_id'' = Some v"
  shows "fst (get_or_create_device_id w) = Inr v \<and>
         drawn (snd (get_or_create_device_id w)) = drawn w \<and>
         home (snd (get_or_create_device_id w)) = home w \<and>
         logged (snd (get_or_create_device_id w)) = logged w"
  using stored_id_is_returned [OF assms] by simp

theorem device_id_is_not_validated_witness:
  "fst (get_or_create_device_id (known_world JNull)) = Inr JNull \<and>
   fst (get_or_create_device_id (known_world (JStr []))) = Inr (JStr []) \<and>
   fst (get_or_create_device_id (known_world (JInt 42))) = Inr (JInt 42) \<and>
   \<not> is_uuid_text []"
proof -
  have h: "home (known_world v) = Dir (Some (stored_file v))" for v
    by (simp add: known_world_def)
  have r: "open_read_fault (stored_file v) = None" for v
    by (simp add: stored_file_def)
  have c: "content (stored_file v) =
             Parsed (JObj [(''device_id'', v), (''created_at'', JStr ''2023-06-01 08:00:00.000000'')])" for v
    by (simp add: stored_file_def)
  have m: "map_of [(''device_id'', v), (''created_at'', JStr ''2023-06-01 08:00:00.000000'')]
             ''device_id'' = Some v" for v :: json
    by simp
  show ?thesis
    using device_id_is_not_validated [OF h r c m, of JNull]
      device_id_is_not_validated [OF h r c m, of "JStr []"]
      device_id_is_not_validated [OF h r c m, of "JInt 42"]
    by (simp add: is_uuid_text_def)
qed

subsection \<open>The identity store: generating a new identifier\<close>

lemma hex_digit_in: "n < 16 \<Longrightarrow> hex_digit n \<in> set ''0123456789abcdef''"
  unfolding hex_digit_def by (rule nth_mem) simp

lemma nibble_less: "unat ((w :: 128 word) AND 15) < 16"
proof -
  have "w AND 15 \<le> 15"
    by (rule word_and_le1)
  then have "unat (w AND 15) \<le> unat (15 :: 128 word)"
    by (simp only: word_le_nat_alt)
  then show ?thesis
    by simp
qed

lemma hex32_length: "length (hex32 w) = 32"
  by (simp add: hex32_def)

lemma hex32_is_hex: "is_hex (hex32 w)"
  unfolding is_hex_def hex32_def list_all_iff set_map
  by (blast intro: hex_digit_in nibble_less)

lemma is_hex_take: "is_hex s \<Longrightarrow> is_hex (take n s)"
  unfolding is_hex_def list_all_iff by (blast dest: in_set_takeD)

lemma is_hex_drop: "is_hex s \<Longrightarrow> is_hex (drop n s)"
  unfolding is_hex_def list_all_iff by (blast dest: in_set_dropD)

lemma uuid_text_groups:
  assumes "length a = 8" "length b = 4" "length c = 4" "length d = 4" "length e = 12"
    and "is_hex a" "is_hex b" "is_hex c" "is_hex d" "is_hex e"
  shows "is_uuid_text (a @ ''-'' @ b @ ''-'' @ c @ ''-'' @ d @ ''-'' @ e)"
  using assms by (simp add: is_uuid_text_def nth_append)

lemma is_uuid_text_uuid_str: "is_uuid_text (uuid_str w)"
  unfolding uuid_str_def Let_def
  by (rule uuid_text_groups)
     (simp_all add: hex32_length is_hex_take is_hex_drop hex32_is_hex)

lemma generate_id_fst: "fst (generate_id w) = JStr (uuid_str (uuid4 (urandom w (drawn w))))"
  by (simp add: generate_id_def Let_def split: sum.splits)

lemma generate_id_drawn: "drawn (snd (generate_id w)) = Suc (drawn w)"
  by (auto simp: generate_id_def persist_def after_failed_write_def Let_def
      split: sum.splits config_dir.splits write_fault.splits)

lemma generate_id_persisted:
  assumes "home w = Dir old" and "write_fault w = NoFault"
  shows "home (snd (generate_id w)) =
           Dir (Some \<lparr> open_read_fault = (case old of None \<Rightarrow> None | Some f \<Rightarrow> open_read_fault f),
                       content = Parsed (JObj [(''device_id'', fst (generate_id w)),
                                               (''created_at'', JStr (now w))]) \<rparr>) \<and>
         logged (snd (generate_id w)) = logged w"
  using assms by (simp add: generate_id_def persist_def Let_def)

lemma generate_id_open_fails:
  assumes "home w = Dir old" and "write_fault w = OpenFails e"
  shows "home (snd (generate_id w)) = home w \<and>
         logged (snd (generate_id w)) = logged w @ [LogError ''Failed to persist device ID: '' e]"
  using assms by (simp add: generate_id_def persist_def after_failed_write_def Let_def)

lemma generate_id_dump_fails:
  assumes "home w = Dir old" and "write_fault w = DumpFails e"
  shows "logged (snd (generate_id w)) = logged w @ [LogError ''Failed to persist device ID: '' e]"
  using assms by (simp add: generate_id_def persist_def after_failed_write_def Let_def)

lemma read_device_id_bad:
  assumes "open_read_fault f \<noteq> None \<or> (\<exists>e. content f = Unparseable e) \<or>
           (\<exists>v. content f = Parsed v \<and> (\<forall>kvs. v \<noteq> JObj kvs)) \<or>
           (\<exists>kvs. content f = Parsed (JObj kvs) \<and> map_of kvs ''device_id'' = None)"
  shows "read_device_id f = Inr None \<or> (\<exists>e. read_device_id f = Inl e)"
proof (cases "open_read_fault f")
  case (Some e)
  then show ?thesis by (simp add: read_device_id_def)
next
  case None
  show ?thesis
  proof (cases "content f")
    case (Unparseable e)
    with None show ?thesis by (simp add: read_device_id_def)
  next
    case (Parsed v)
    with None assms have v: "(\<forall>kvs. v \<noteq> JObj kvs) \<or> (\<exists>kvs. v = JObj kvs \<and> map_of kvs ''device_id'' = None)"
      by auto
    have "read_device_id f =
            bind_exn (py_contains ''device_id'' v) (\<lambda>present.
              if present then bind_exn (py_getitem v ''device_id'') (\<lambda>v. Inr (Some v))
              else Inr None)"
      using None Parsed by (simp add: read_device_id_def)
    with v show ?thesis
      by (cases v) (auto simp: bind_exn_def)
  qed
qed

text \<open>Whenever the stored identifier cannot be read, the call amounts to
  \<open>generate_id\<close> in a world that has the directory and differs from the given one
  at most in the directory just made and a warning just logged.\<close>

lemma regenerates:
  assumes "home w = NoDir \<longrightarrow> makedirs_fault w = None"
    and "\<forall>f. home w = Dir (Some f) \<longrightarrow>
           open_read_fault f \<noteq> None \<or> (\<exists>e. content f = Unparseable e) \<or>
           (\<exists>v. content f = Parsed v \<and> (\<forall>kvs. v \<noteq> JObj kvs)) \<or>
           (\<exists>kvs. content f = Parsed (JObj kvs) \<and> map_of kvs ''device_id'' = None)"
  shows "\<exists>w' old. get_or_create_device_id w = (Inr (fst (generate_id w')), snd (generate_id w')) \<and>
           home w' = Dir old \<and> (home w \<noteq> NoDir \<longrightarrow> home w = Dir old) \<and>
           urandom w' = urandom w \<and> drawn w' = drawn w \<and> now w' = now w \<and>
           write_fault w' = write_fault w"
proof (cases "home w")
  case NoDir
  with assms(1) have "makedirs_fault w = None" by simp
  with NoDir have "get_or_create_device_id w =
      (Inr (fst (generate_id (w\<lparr>home := Dir None\<rparr>))), snd (generate_id (w\<lparr>home := Dir None\<rparr>)))"
    by (simp add: get_or_create_device_id_def ensure_dir_def device_file_of_def split: prod.splits)
  then show ?thesis
    using NoDir by (intro exI [of _ "w\<lparr>home := Dir None\<rparr>"] exI [of _ None]) simp
next
  case (Dir old)
  show ?thesis
  proof (cases old)
    case None
    with Dir have "get_or_create_device_id w = (Inr (fst (generate_id w)), snd (generate_id w))"
      by (simp add: get_or_create_device_id_def ensure_dir_def device_file_of_def split: prod.splits)
    then show ?thesis
      using Dir by (intro exI [of _ w] exI [of _ old]) simp
  next
    case (Some f)
    with Dir assms(2) have "read_device_id f = Inr None \<or> (\<exists>e. read_device_id f = Inl e)"
      by (intro read_device_id_bad) simp
    then show ?thesis
    proof
      assume "read_device_id f = Inr None"
      with Dir Some have "get_or_create_device_id w = (Inr (fst (generate_id w)), snd (generate_id w))"
        by (simp add: get_or_create_device_id_def ensure_dir_def device_file_of_def split: prod.splits)
      then show ?thesis
        using Dir by (intro exI [of _ w] exI [of _ old]) simp
    next
      assume "\<exists>e. read_device_id f = Inl e"
      then obtain e where e: "read_device_id f = Inl e" ..
      let ?w = "w\<lparr>logged := logged w @
                  [LogWarning ''Corrupt device file found, regenerating ID. Error: '' e]\<rparr>"
      from e Dir Some have "get_or_create_device_id w = (Inr (fst (generate_id ?w)), snd (generate_id ?w))"
        by (simp add: get_or_create_device_id_def ensure_dir_def device_file_of_def split: prod.splits)
      then show ?thesis
        using Dir by (intro exI [of _ ?w] exI [of _ old]) simp
    qed
  qed
qed

lemma upt32:
  "[0..<32] = [0, 1, 2, 3, 4, 5, 6, 7, 8, 9, 10, 11, 12, 13, 14, 15, 16, 17, 18, 19, 20, 21,
               22, 23, 24, 25, 26, 27, 28, 29, 30, 31]"
  by (simp add: upt_rec)

lemma uuid4_example:
  "uuid4 0x0123456789abcdef0123456789abcdef = 0x0123456789ab4def8123456789abcdef"
  by (simp add: uuid4_def)

lemma hex32_example:
  "hex32 0x0123456789ab4def8123456789abcdef = ''0123456789ab4def8123456789abcdef''"
  by (simp add: hex32_def upt32 hex_digit_def drop_bit_eq_div)

lemma uuid_str_example:
  "uuid_str (uuid4 0x0123456789abcdef0123456789abcdef) = ''01234567-89ab-4def-8123-456789abcdef''"
  by (simp add: uuid_str_def uuid4_example hex32_example)

text \<open>
  Claim C7, as the code has it. Provided the configuration directory exists or
  can be created: when the identity file is absent, cannot be opened, does not
  decode, or decodes to something without a \<^verbatim>\<open>device_id\<close> key, the call does
  not raise and returns a newly drawn identifier in the textual form of a UUID.
  When the write succeeds, the file afterwards holds that identifier and the
  creation time, whatever it held before. When the write fails, the same
  identifier is returned all the same and the failure is the last entry of the
  log.
\<close>

theorem device_id_is_regenerated:
  assumes "home w = NoDir \<longrightarrow> makedirs_fault w = None"
    and "\<forall>f. home w = Dir (Some f) \<longrightarrow>
           open_read_fault f \<noteq> None \<or> (\<exists>e. content f = Unparseable e) \<or>
           (\<exists>v. content f = Parsed v \<and> (\<forall>kvs. v \<noteq> JObj kvs)) \<or>
           (\<exists>kvs. content f = Parsed (JObj kvs) \<and> map_of kvs ''device_id'' = None)"
  shows "fst (get_or_create_device_id w) = Inr (JStr (uuid_str (uuid4 (urandom w (drawn w))))) \<and>
         is_uuid_text (uuid_str (uuid4 (urandom w (drawn w)))) \<and>
         drawn (snd (get_or_create_device_id w)) = Suc (drawn w) \<and>
         (write_fault w = NoFault \<longrightarrow>
            (\<exists>fault. home (snd (get_or_create_device_id w)) =
               Dir (Some \<lparr> open_read_fault = fault,
                           content = Parsed (JObj [(''device_id'',
                                                    JStr (uuid_str (uuid4 (urandom w (drawn w))))),
                                                   (''created_at'', JStr (now w))]) \<rparr>))) \<and>
         (\<forall>e. write_fault w = OpenFails e \<or> write_fault w = DumpFails e \<longrightarrow>
            (\<exists>before. logged (snd (get_or_create_device_id w)) =
               before @ [LogError ''Failed to persist device ID: '' e]))"
proof -
  from regenerates [OF assms] obtain w' old where
    r: "get_or_create_device_id w = (Inr (fst (generate_id w')), snd (generate_id w'))"
    and h: "home w' = Dir old"
    and same: "urandom w' = urandom w" "drawn w' = drawn w" "now w' = now w"
      "write_fault w' = write_fault w"
    by blast
  have id: "fst (generate_id w') = JStr (uuid_str (uuid4 (urandom w (drawn w))))"
    using same by (simp add: generate_id_fst)
  have 1: "fst (get_or_create_device_id w) = Inr (JStr (uuid_str (uuid4 (urandom w (drawn w)))))"
    using r id by simp
  have 2: "is_uuid_text (uuid_str (uuid4 (urandom w (drawn w))))"
    by (rule is_uuid_text_uuid_str)
  have 3: "drawn (snd (get_or_create_device_id w)) = Suc (drawn w)"
    using r same by (simp add: generate_id_drawn)
  have 4: "\<exists>fault. home (snd (get_or_create_device_id w)) =
               Dir (Some \<lparr> open_read_fault = fault,
                           content = Parsed (JObj [(''device_id'',
                                                    JStr (uuid_str (uuid4 (urandom w (drawn w))))),
                                                   (''created_at'', JStr (now w))]) \<rparr>)"
    if "write_fault w = NoFault"
  proof -
    from that same have "write_fault w' = NoFault" by simp
    from generate_id_persisted [OF h this] r id same show ?thesis
      by auto
  qed
  have 5: "\<exists>before. logged (snd (get_or_create_device_id w)) =
               before @ [LogError ''Failed to persist device ID: '' e]"
    if "write_fault w = OpenFails e \<or> write_fault w = DumpFails e" for e
  proof -
    from that same have "write_fault w' = OpenFails e \<or> write_fault w' = DumpFails e"
      by simp
    then have "logged (snd (generate_id w')) =
                 logged w' @ [LogError ''Failed to persist device ID: '' e]"
      using generate_id_open_fails [OF h] generate_id_dump_fails [OF h] by blast
    with r show ?thesis by simp
  qed
  from 1 2 3 4 5 show ?thesis
    by blast
qed

theorem device_id_is_regenerated_witness:
  "home fresh_world = NoDir \<and> makedirs_fault fresh_world = None \<and>
   fst (get_or_create_device_id fresh_world) = Inr (JStr ''01234567-89ab-4def-8123-456789abcdef'') \<and>
   is_uuid_text ''01234567-89ab-4def-8123-456789abcdef'' \<and>
   write_fault corrupt_world = OpenFails (OSError ''Read-only file system'') \<and>
   fst (get_or_create_device_id corrupt_world) = Inr (JStr ''01234567-89ab-4def-8123-456789abcdef'')"
proof -
  have f1: "home fresh_world = NoDir \<longrightarrow> makedirs_fault fresh_world = None"
    by (simp add: fresh_world_def)
  have f2: "\<forall>f. home fresh_world = Dir (Some f) \<longrightarrow>
           open_read_fault f \<noteq> None \<or> (\<exists>e. content f = Unparseable e) \<or>
           (\<exists>v. content f = Parsed v \<and> (\<forall>kvs. v \<noteq> JObj kvs)) \<or>
           (\<exists>kvs. content f = Parsed (JObj kvs) \<and> map_of kvs ''device_id'' = None)"
    by (simp add: fresh_world_def)
  have c1: "home corrupt_world = NoDir \<longrightarrow> makedirs_fault corrupt_world = None"
    by (simp add: corrupt_world_def)
  have c2: "\<forall>f. home corrupt_world = Dir (Some f) \<longrightarrow>
           open_read_fault f \<noteq> None \<or> (\<exists>e. content f = Unparseable e) \<or>
           (\<exists>v. content f = Parsed v \<and> (\<forall>kvs. v \<noteq> JObj kvs)) \<or>
           (\<exists>kvs. content f = Parsed (JObj kvs) \<and> map_of kvs ''device_id'' = None)"
    by (simp add: corrupt_world_def)
  have u: "urandom fresh_world (drawn fresh_world) = 0x0123456789abcdef0123456789abcdef"
    by (simp add: fresh_world_def)
  have v: "urandom corrupt_world (drawn corrupt_world) = 0x0123456789abcdef0123456789abcdef"
    by (simp add: corrupt_world_def fresh_world_def)
  from device_id_is_regenerated [OF f1 f2]
  have a: "fst (get_or_create_device_id fresh_world) =
             Inr (JStr ''01234567-89ab-4def-8123-456789abcdef'')"
    and b: "is_uuid_text ''01234567-89ab-4def-8123-456789abcdef''"
    by (simp_all only: u uuid_str_example)
  from device_id_is_regenerated [OF c1 c2]
  have c: "fst (get_or_create_device_id corrupt_world) =
             Inr (JStr ''01234567-89ab-4def-8123-456789abcdef'')"
    by (simp only: v uuid_str_example)
  show ?thesis
    using a b c by (simp add: fresh_world_def corrupt_world_def)
qed

text \<open>
  The claim as stated fails when the directory is missing and cannot be created:
  the identity file is absent, and the exception of \<^verbatim>\<open>os.makedirs\<close> leaves
  \<^verbatim>\<open>get_or_create_device_id\<close>, since \<^verbatim>\<open>_ensure_dir()\<close> is called outside the
  \<^verbatim>\<open>try\<close> blocks.
\<close>

theorem device_id_raises_counterexample:
  "device_file_of readonly_world = None \<and>
   get_or_create_device_id readonly_world = (Inl (OSError ''Permission denied''), readonly_world)"
  by (simp add: get_or_create_device_id_def ensure_dir_def device_file_of_def
      readonly_world_def fresh_world_def)

subsection \<open>The scan command: submission and exit status\<close>

lemma run_scan_identity_raises:
  assumes "get_or_create_device_id w = (Inl e, w1)"
  shows "run_scan fmt post env w backend_url =
           \<lparr> stdout = [], posted = [], world_after = w1, outcome = Raised e \<rparr>"
  using assms by (simp add: run_scan_def)

lemma run_scan_summary_raises:
  assumes "get_or_create_device_id w = (Inr device_uuid, w1)"
    and "scan_system env = (system_metrics, out2)"
    and "print_summary fmt system_metrics = (out3, Inl e)"
  shows "posted (run_scan fmt post env w backend_url) = [] \<and>
         outcome (run_scan fmt post env w backend_url) = Raised e"
  using assms by (simp add: run_scan_def Let_def)

lemma run_scan_reached:
  assumes "get_or_create_device_id w = (Inr device_uuid, w1)"
    and "scan_system env = (system_metrics, out2)"
    and "print_summary fmt system_metrics = (out3, Inr u)"
    and "send_data post (payload_of device_uuid system_metrics) backend_url = (success, result)"
  shows "posted (run_scan fmt post env w backend_url)
           = [send_data_request (payload_of device_uuid system_metrics) backend_url] \<and>
         outcome (run_scan fmt post env w backend_url) = (if success then Returned else SysExit 1) \<and>
         stdout (run_scan fmt post env w backend_url) =
           [check_mark @ '' Device Identified: '' @ py_str fmt device_uuid,
            ''Running hardware diagnostics (this may take a few seconds)...'']
           @ out2 @ out3 @ notice backend_url
           @ (if success then success_lines fmt backend_url device_uuid
              else [failure_line fmt result])"
  using assms by (simp add: run_scan_def Let_def)

text \<open>What a run that reached \<^verbatim>\<open>requests.post\<close> went through before.\<close>

lemma run_scan_postedD:
  assumes "req \<in> set (posted (run_scan fmt post env w backend_url))"
  shows "\<exists>device_uuid w1 out3.
           get_or_create_device_id w = (Inr device_uuid, w1) \<and>
           print_summary fmt (fst (scan_system env)) = (out3, Inr ()) \<and>
           req = send_data_request (payload_of device_uuid (fst (scan_system env))) backend_url \<and>
           posted (run_scan fmt post env w backend_url) = [req]"
proof -
  obtain r w1 where g: "get_or_create_device_id w = (r, w1)"
    by (cases "get_or_create_device_id w")
  obtain m out2 where s: "scan_system env = (m, out2)"
    by (cases "scan_system env")
  obtain out3 p where ps: "print_summary fmt m = (out3, p)"
    by (cases "print_summary fmt m")
  show ?thesis
  proof (cases r)
    case (Inl e)
    with g assms show ?thesis
      by (simp add: run_scan_identity_raises)
  next
    case dev: (Inr device_uuid)
    show ?thesis
    proof (cases p)
      case (Inl e)
      with g dev s ps assms show ?thesis
        using run_scan_summary_raises [of w device_uuid w1 env m out2 fmt out3 e post backend_url]
        by simp
    next
      case (Inr u)
      obtain ok res where sd: "send_data post (payload_of device_uuid m) backend_url = (ok, res)"
        by (cases "send_data post (payload_of device_uuid m) backend_url")
      from g dev s ps Inr sd assms show ?thesis
        using run_scan_reached [of w device_uuid w1 env m out2 fmt out3 u post backend_url ok res]
        by simp
    qed
  qed
qed

lemma print_gpus_ok:
  assumes "\<forall>g \<in> set gs. \<exists>kvs. g = JObj kvs \<and> map_of kvs ''name'' \<noteq> None"
  shows "\<exists>out. print_gpus fmt gs = (out, Inr ())"
  using assms
proof (induction gs)
  case Nil
  show ?case by simp
next
  case (Cons g rest)
  then obtain kvs n where g: "g = JObj kvs" "map_of kvs ''name'' = Some n"
    by auto
  from Cons obtain out where "print_gpus fmt rest = (out, Inr ())"
    by auto
  with g show ?case
    by (simp add: out_bind_def lift_def print_def)
qed

lemma torch_devices_named:
  "g \<in> set (torch_devices get idxs) \<Longrightarrow> \<exists>kvs. g = JObj kvs \<and> map_of kvs ''name'' \<noteq> None"
  by (induction idxs) (auto simp: torch_entry_def bind_exn_def split: sum.splits)

lemma gputil_strategy_named:
  "g \<in> set (gputil_strategy env) \<Longrightarrow> \<exists>kvs. g = JObj kvs \<and> map_of kvs ''name'' \<noteq> None"
  by (auto simp: gputil_strategy_def gputil_entry_def split: sum.splits)

lemma torch_strategy_cases:
  "torch_strategy env = [] \<or> torch_strategy env = [mps_entry] \<or>
   (\<exists>get idxs. torch_strategy env = torch_devices get idxs)"
proof (cases "import_torch env")
  case (Inl e)
  then show ?thesis by (simp add: torch_strategy_def)
next
  case t: (Inr t)
  show ?thesis
  proof (cases "cuda_is_available t")
    case (Inl e)
    with t show ?thesis by (simp add: torch_strategy_def)
  next
    case avail: (Inr available)
    show ?thesis
    proof (cases available)
      case True
      show ?thesis
      proof (cases "cuda_device_count t")
        case (Inl e)
        with t avail True show ?thesis by (simp add: torch_strategy_def)
      next
        case (Inr n)
        with t avail True
        have "torch_strategy env = torch_devices (cuda_get_device_properties t) [0..<nat n]"
          by (simp add: torch_strategy_def)
        then show ?thesis by blast
      qed
    next
      case False
      show ?thesis
      proof (cases "mps_is_available t")
        case (Inl e)
        with t avail False show ?thesis by (simp add: torch_strategy_def)
      next
        case (Inr m)
        with t avail False show ?thesis by (cases m) (simp_all add: torch_strategy_def)
      qed
    qed
  qed
qed

lemma torch_strategy_named:
  assumes "g \<in> set (torch_strategy env)"
  shows "\<exists>kvs. g = JObj kvs \<and> map_of kvs ''name'' \<noteq> None"
proof -
  consider "torch_strategy env = []" | "torch_strategy env = [mps_entry]"
    | get idxs where "torch_strategy env = torch_devices get idxs"
    using torch_strategy_cases [of env] by blast
  then show ?thesis
  proof cases
    case 1
    with assms show ?thesis by simp
  next
    case 2
    with assms show ?thesis by (simp add: mps_entry_def)
  next
    case 3
    with assms have "g \<in> set (torch_devices get idxs)" by simp
    then show ?thesis by (rule torch_devices_named)
  qed
qed

lemma wmic_entries_named:
  "g \<in> set (wmic_entries lines) \<Longrightarrow> \<exists>kvs. g = JObj kvs \<and> map_of kvs ''name'' \<noteq> None"
  by (induction lines) (auto simp: wmic_entry_def bind_exn_def Let_def split: sum.splits)

lemma wmic_strategy_named:
  "g \<in> set (wmic_strategy env) \<Longrightarrow> \<exists>kvs. g = JObj kvs \<and> map_of kvs ''name'' \<noteq> None"
  by (auto simp: wmic_strategy_def split: sum.splits dest: wmic_entries_named)

lemma gpu_entries_named:
  assumes "g \<in> set (fst (get_gpu_info env))"
  shows "\<exists>kvs. g = JObj kvs \<and> map_of kvs ''name'' \<noteq> None"
  using assms gputil_strategy_named [of g env] torch_strategy_named [of g env]
    wmic_strategy_named [of g env]
  by (simp add: get_gpu_info_cases split: if_splits)

text \<open>The summary of lines 57 to 67 needs the CPU and the RAM section: it is printed
  whenever those two collectors succeed, and raises \<^verbatim>\<open>KeyError\<close> at line 58
  when the CPU collector returned the empty dictionary.\<close>

lemma print_summary_ok:
  assumes "get_cpu_info_try env = Inr cpu" and "get_ram_info_try env = Inr ram"
  shows "\<exists>out. print_summary fmt (fst (scan_system env)) = (out, Inr ())"
proof -
  from assms(2) obtain total others where
    ram: "ram = JObj ((''total_gb'', total) # others)"
    by (auto simp: get_ram_info_try_def bind_exn_def split: sum.splits)
  have r: "get_ram_info env = ram"
    using assms(2) by (simp add: get_ram_info_def)
  from assms(1) obtain rest where
    cpu: "cpu = JObj ((''brand'', JStr (cpu_brand env))
                     # (''architecture'', JStr (platform_machine env))
                     # (''physical_cores'', fst rest)
                     # (''logical_cores'', fst (snd rest)) # snd (snd rest))"
    by (auto simp: get_cpu_info_try_def bind_exn_def Let_def split: sum.splits)
  have c: "get_cpu_info env = cpu"
    using assms(1) by (simp add: get_cpu_info_def)
  obtain out where g: "print_gpus fmt (fst (get_gpu_info env)) = (out, Inr ())"
    using print_gpus_ok gpu_entries_named by blast
  show ?thesis
    using g
    by (simp add: print_summary_def scan_system_def c cpu r ram
        out_bind_def lift_def print_def bind_exn_def)
qed

lemma print_summary_without_cpu:
  assumes "get_cpu_info env = JObj []"
  shows "print_summary fmt (fst (scan_system env))
           = ([newline @ magnifier @ '' DETECTED SPECIFICATIONS:''], Inl (KeyError ''brand''))"
  using assms
  by (simp add: print_summary_def scan_system_def out_bind_def lift_def print_def bind_exn_def)

lemma run_scan_reaches_post:
  assumes "get_or_create_device_id w = (Inr device_uuid, w1)"
    and "get_cpu_info_try env = Inr cpu" and "get_ram_info_try env = Inr ram"
  shows "posted (run_scan fmt post env w backend_url)
           = [send_data_request (payload_of device_uuid (fst (scan_system env))) backend_url]"
proof -
  obtain out3 where ps: "print_summary fmt (fst (scan_system env)) = (out3, Inr ())"
    using print_summary_ok [OF assms(2,3)] by blast
  obtain m out2 where s: "scan_system env = (m, out2)"
    by (cases "scan_system env")
  obtain ok res where sd: "send_data post (payload_of device_uuid m) backend_url = (ok, res)"
    by (cases "send_data post (payload_of device_uuid m) backend_url")
  from ps s have "print_summary fmt m = (out3, Inr ())"
    by simp
  from run_scan_reached [OF assms(1) s this sd] s show ?thesis
    by simp
qed

lemma send_data_ok:
  assumes "post (send_data_request report_data api_url) = Inr resp"
    and "status_code resp < 400" and "resp_json resp = Inr body"
  shows "send_data post report_data api_url = (True, Body body)"
  using assms by (simp add: send_data_def send_data_try_def raise_for_status_def)

lemma send_data_connection_error:
  assumes "post (send_data_request report_data api_url) = Inl e"
    and "is_ConnectionError e" and "\<not> is_Timeout e"
  shows "send_data post report_data api_url = (False, Message ''Connection Error'')"
  using assms by (simp add: send_data_def send_data_try_def send_data_except_def)

lemma cpu_linux:
  "get_cpu_info_try linux_env =
     Inr (JObj [(''brand'', JStr ''x86_64''), (''architecture'', JStr ''x86_64''),
                (''physical_cores'', JInt 4), (''logical_cores'', JInt 8),
                (''frequency_max'', JFloat 3600), (''usage_percent'', JFloat 5)])"
  by (simp add: get_cpu_info_try_def cpu_brand_def frequency_max_def bind_exn_def
      json_of_int_option_def linux_env_def bare_env_def)

lemma gib_exact: "\<bar>n\<bar> < 2 ^ 53 \<Longrightarrow> gib n = Inr (py_round2 (of_int n / 1024 ^ 3))"
  by (simp add: gib_def truediv_gib_exact bind_exn_def)

lemma ram_linux:
  "get_ram_info_try linux_env =
     Inr (JObj [(''total_gb'', JFloat 16), (''available_gb'', JFloat 8),
                (''percent_used'', JFloat 50)])"
proof -
  have "gib 17179869184 = Inr 16" and "gib 8589934592 = Inr 8"
    by (simp_all add: gib_exact py_round2_def round_half_even_def Let_def)
  then show ?thesis
    by (simp add: get_ram_info_try_def bind_exn_def linux_env_def bare_env_def)
qed

lemma known_world_id: "get_or_create_device_id (known_world v) = (Inr v, known_world v)"
  by (rule stored_id_is_returned
        [where f = "stored_file v"
           and kvs = "[(''device_id'', v), (''created_at'', JStr ''2023-06-01 08:00:00.000000'')]"])
     (simp_all add: known_world_def stored_file_def)

lemma split_localhost: "split ''http://localhost:3001'' ''/api'' = [''http://localhost:3001'']"
  by (simp add: split_def)

text \<open>
  Claim C8. When a run has handed its request to the endpoint and the endpoint
  answers with a status below 400 and a body that decodes, \<^verbatim>\<open>send_data\<close> returns
  \<^verbatim>\<open>True\<close> and the decoded body, \<^verbatim>\<open>run_scan\<close> returns normally, which makes the
  exit status 0, and among the printed lines is the dashboard link: the backend
  URL up to its first \<^verbatim>\<open>/api\<close>, followed by \<^verbatim>\<open>/?deviceId=\<close> and the device
  identifier.
\<close>

theorem run_scan_success:
  assumes "posted (run_scan fmt post env w backend_url) = [req]"
    and "post req = Inr resp" and "status_code resp < 400" and "resp_json resp = Inr body"
  shows "send_data post (req_json req) backend_url = (True, Body body) \<and>
         outcome (run_scan fmt post env w backend_url) = Returned \<and>
         exit_status (outcome (run_scan fmt post env w backend_url)) = 0 \<and>
         (\<exists>device_uuid.
            fst (get_or_create_device_id w) = Inr device_uuid \<and>
            ''   '' @ hd (split backend_url ''/api'') @ ''/?deviceId='' @ py_str fmt device_uuid
              \<in> set (stdout (run_scan fmt post env w backend_url)))"
proof -
  have "req \<in> set (posted (run_scan fmt post env w backend_url))"
    using assms(1) by simp
  from run_scan_postedD [OF this] obtain device_uuid w1 out3 where
    g: "get_or_create_device_id w = (Inr device_uuid, w1)"
    and ps: "print_summary fmt (fst (scan_system env)) = (out3, Inr ())"
    and req: "req = send_data_request (payload_of device_uuid (fst (scan_system env))) backend_url"
    by blast
  let ?payload = "payload_of device_uuid (fst (scan_system env))"
  have j: "req_json req = ?payload"
    using req by (simp add: send_data_request_def)
  have sd: "send_data post ?payload backend_url = (True, Body body)"
    using assms(2-4) req by (intro send_data_ok) simp_all
  have s: "scan_system env = (fst (scan_system env), snd (scan_system env))"
    by simp
  note r = run_scan_reached [OF g s ps sd]
  have out: "outcome (run_scan fmt post env w backend_url) = Returned"
    using r by simp
  have "''   '' @ hd (split backend_url ''/api'') @ ''/?deviceId='' @ py_str fmt device_uuid
          \<in> set (success_lines fmt backend_url device_uuid)"
    by (simp add: success_lines_def final_link_def)
  then have "''   '' @ hd (split backend_url ''/api'') @ ''/?deviceId='' @ py_str fmt device_uuid
          \<in> set (stdout (run_scan fmt post env w backend_url))"
    using r by simp
  with g sd j out show ?thesis
    by auto
qed

theorem run_scan_success_witness:
  "posted (run_scan sample_str accepting_post linux_env
             (known_world (JStr ''01234567-89ab-4def-8123-456789abcdef'')) ''http://localhost:3001'')
     = [send_data_request
          (payload_of (JStr ''01234567-89ab-4def-8123-456789abcdef'') (fst (scan_system linux_env)))
          ''http://localhost:3001''] \<and>
   outcome (run_scan sample_str accepting_post linux_env
             (known_world (JStr ''01234567-89ab-4def-8123-456789abcdef'')) ''http://localhost:3001'')
     = Returned \<and>
   ''   http://localhost:3001/?deviceId=01234567-89ab-4def-8123-456789abcdef''
     \<in> set (stdout (run_scan sample_str accepting_post linux_env
             (known_world (JStr ''01234567-89ab-4def-8123-456789abcdef'')) ''http://localhost:3001''))"
proof -
  let ?v = "JStr ''01234567-89ab-4def-8123-456789abcdef''"
  let ?run = "run_scan sample_str accepting_post linux_env (known_world ?v) ''http://localhost:3001''"
  let ?req = "send_data_request (payload_of ?v (fst (scan_system linux_env))) ''http://localhost:3001''"
  have p: "posted ?run = [?req]"
    by (rule run_scan_reaches_post [OF known_world_id cpu_linux ram_linux])
  have a: "accepting_post ?req =
             Inr \<lparr> status_code = 201, reason = ''Created'', resp_url = req_url ?req,
                   resp_json = Inr (JObj [(''status'', JStr ''ok'')]) \<rparr>"
    by (simp add: accepting_post_def)
  have "outcome ?run = Returned \<and>
        (\<exists>device_uuid.
            fst (get_or_create_device_id (known_world ?v)) = Inr device_uuid \<and>
            ''   '' @ hd (split ''http://localhost:3001'' ''/api'') @ ''/?deviceId=''
              @ py_str sample_str device_uuid \<in> set (stdout ?run))"
    using run_scan_success [OF p a, of "JObj [(''status'', JStr ''ok'')]"] by simp
  then show ?thesis
    using p by (auto simp: known_world_id split_localhost py_str_def)
qed

text \<open>
  Claim C4, as the code has it. When a run has handed its request to the endpoint
  and the connection fails (a \<^verbatim>\<open>ConnectionError\<close> that is not also a timeout),
  \<^verbatim>\<open>send_data\<close> does not raise and returns \<^verbatim>\<open>False\<close> with the text
  \<^verbatim>\<open>Connection Error\<close>, written with a space; \<^verbatim>\<open>run_scan\<close> prints that text in its
  last line and leaves through \<^verbatim>\<open>sys.exit(1)\<close>.
\<close>

theorem run_scan_connection_error:
  assumes "posted (run_scan fmt post env w backend_url) = [req]"
    and "post req = Inl e" and "is_ConnectionError e" and "\<not> is_Timeout e"
  shows "send_data post (req_json req) backend_url = (False, Message ''Connection Error'') \<and>
         outcome (run_scan fmt post env w backend_url) = SysExit 1 \<and>
         exit_status (outcome (run_scan fmt post env w backend_url)) = 1 \<and>
         last (stdout (run_scan fmt post env w backend_url))
           = cross_mark @ '' Failed to reach server. Error: Connection Error''"
proof -
  have "req \<in> set (posted (run_scan fmt post env w backend_url))"
    using assms(1) by simp
  from run_scan_postedD [OF this] obtain device_uuid w1 out3 where
    g: "get_or_create_device_id w = (Inr device_uuid, w1)"
    and ps: "print_summary fmt (fst (scan_system env)) = (out3, Inr ())"
    and req: "req = send_data_request (payload_of device_uuid (fst (scan_system env))) backend_url"
    by blast
  let ?payload = "payload_of device_uuid (fst (scan_system env))"
  have j: "req_json req = ?payload"
    using req by (simp add: send_data_request_def)
  have sd: "send_data post ?payload backend_url = (False, Message ''Connection Error'')"
    using assms(2-4) req by (intro send_data_connection_error) simp_all
  have s: "scan_system env = (fst (scan_system env), snd (scan_system env))"
    by simp
  note r = run_scan_reached [OF g s ps sd]
  have "outcome (run_scan fmt post env w backend_url) = SysExit 1"
    using r by simp
  moreover have "last (stdout (run_scan fmt post env w backend_url))
           = cross_mark @ '' Failed to reach server. Error: Connection Error''"
    using r by (simp add: failure_line_def)
  ultimately show ?thesis
    using sd j by simp
qed

theorem run_scan_connection_error_witness:
  "posted (run_scan sample_str refusing_post linux_env
             (known_world (JStr ''01234567-89ab-4def-8123-456789abcdef'')) ''http://localhost:3001'')
     = [send_data_request
          (payload_of (JStr ''01234567-89ab-4def-8123-456789abcdef'') (fst (scan_system linux_env)))
          ''http://localhost:3001''] \<and>
   is_ConnectionError (ConnectionError ''Connection refused'') \<and>
   \<not> is_Timeout (ConnectionError ''Connection refused'') \<and>
   outcome (run_scan sample_str refusing_post linux_env
             (known_world (JStr ''01234567-89ab-4def-8123-456789abcdef'')) ''http://localhost:3001'')
     = SysExit 1"
proof -
  let ?v = "JStr ''01234567-89ab-4def-8123-456789abcdef''"
  let ?run = "run_scan sample_str refusing_post linux_env (known_world ?v) ''http://localhost:3001''"
  let ?req = "send_data_request (payload_of ?v (fst (scan_system linux_env))) ''http://localhost:3001''"
  have p: "posted ?run = [?req]"
    by (rule run_scan_reaches_post [OF known_world_id cpu_linux ram_linux])
  have a: "refusing_post ?req = Inl (ConnectionError ''Connection refused'')"
    by (simp add: refusing_post_def)
  have c: "is_ConnectionError (ConnectionError ''Connection refused'')"
    and t: "\<not> is_Timeout (ConnectionError ''Connection refused'')"
    by simp_all
  have "outcome ?run = SysExit 1"
    using run_scan_connection_error [OF p a c t] by simp
  with p show ?thesis
    by simp
qed

text \<open>
  The claim as stated fails on the text: for the endpoint that refuses the
  connection, line 38 of sender.py returns \<^verbatim>\<open>"Connection Error"\<close>, which is not
  the string \<^verbatim>\<open>"ConnectionError"\<close>.
\<close>

theorem send_data_message_counterexample:
  "send_data refusing_post JNull ''http://localhost:3001'' = (False, Message ''Connection Error'') \<and>
   send_data refusing_post JNull ''http://localhost:3001'' \<noteq> (False, Message ''ConnectionError'')"
  by (simp add: send_data_def send_data_try_def send_data_except_def refusing_post_def)

text \<open>
  Claim C9. The payload's \<^verbatim>\<open>timestamp\<close> is the string \<^verbatim>\<open>Now\<close>, whatever the
  identifier and the metrics are, and so is the \<^verbatim>\<open>timestamp\<close> of every request a
  run hands to the endpoint, for every world the run starts in (its clock
  included), every machine and every endpoint.
\<close>

theorem payload_timestamp_is_constant:
  "py_getitem (payload_of device_uuid system_metrics) ''timestamp'' = Inr (JStr ''Now'') \<and>
   (\<forall>req \<in> set (posted (run_scan fmt post env w backend_url)).
      py_getitem (req_json req) ''timestamp'' = Inr (JStr ''Now''))"
proof
  show "py_getitem (payload_of device_uuid system_metrics) ''timestamp'' = Inr (JStr ''Now'')"
    by (simp add: payload_of_def)
next
  show "\<forall>req \<in> set (posted (run_scan fmt post env w backend_url)).
      py_getitem (req_json req) ''timestamp'' = Inr (JStr ''Now'')"
  proof
    fix req
    assume "req \<in> set (posted (run_scan fmt post env w backend_url))"
    from run_scan_postedD [OF this] obtain device_uuid where
      "req = send_data_request (payload_of device_uuid (fst (scan_system env))) backend_url"
      by blast
    then show "py_getitem (req_json req) ''timestamp'' = Inr (JStr ''Now'')"
      by (simp add: send_data_request_def payload_of_def)
  qed
qed

theorem payload_timestamp_is_constant_witness:
  "posted (run_scan sample_str accepting_post linux_env
             (known_world (JStr ''01234567-89ab-4def-8123-456789abcdef'')) ''http://localhost:3001'')
     = [send_data_request
          (payload_of (JStr ''01234567-89ab-4def-8123-456789abcdef'') (fst (scan_system linux_env)))
          ''http://localhost:3001''] \<and>
   py_getitem (req_json (send_data_request
          (payload_of (JStr ''01234567-89ab-4def-8123-456789abcdef'') (fst (scan_system linux_env)))
          ''http://localhost:3001'')) ''timestamp'' = Inr (JStr ''Now'')"
proof -
  let ?v = "JStr ''01234567-89ab-4def-8123-456789abcdef''"
  let ?run = "run_scan sample_str accepting_post linux_env (known_world ?v) ''http://localhost:3001''"
  let ?req = "send_data_request (payload_of ?v (fst (scan_system linux_env))) ''http://localhost:3001''"
  have p: "posted ?run = [?req]"
    by (rule run_scan_reaches_post [OF known_world_id cpu_linux ram_linux])
  have "\<forall>req \<in> set (posted ?run). py_getitem (req_json req) ''timestamp'' = Inr (JStr ''Now'')"
    using payload_timestamp_is_constant [of ?v JNull sample_str accepting_post linux_env
        "known_world ?v" "''http://localhost:3001''"]
    by (rule conjunct2)
  with p show ?thesis
    by simp
qed

end
